theory Spec2Isabelle
  imports Complex_Main
begin

section \<open>Common vocabulary\<close>

text \<open>
  A JavaScript string is modelled as a HOL \<open>string\<close>, one \<open>char\<close> per UTF-16 code
  unit, so that \<open>length\<close> is the \<open>.length\<close> of the source. A thrown value is an
  \<open>Error\<close> object, of which the handlers read the fields \<open>message\<close>, \<open>code\<close>,
  \<open>shortMessage\<close> and \<open>revert\<close> (an absent field is \<open>None\<close>).
\<close>

record revert_info =
  reason :: "string option"
  data :: "string option"

record js_error =
  message :: string
  code :: "int option"
  shortMessage :: "string option"
  revert :: "revert_info option"

definition Error :: "string \<Rightarrow> js_error" where
  \<comment> \<open>\<open>new Error(msg)\<close>\<close>
  "Error msg = \<lparr>message = msg, code = None, shortMessage = None, revert = None\<rparr>"

section \<open>The deployment script (\<open>scripts/deploy.js\<close>, src/unnamed/part_000)\<close>

text \<open>
  \<open>process.env\<close> is a map from names to strings. What the script does to the outside
  is recorded as a list of events, in the order of the source; \<open>process.exit(n)\<close>
  ends the run at once with status \<open>n\<close>.
\<close>

type_synonym process_env = "string \<rightharpoonup> string"

datatype deploy_event =
    LogInfo string
  | LogSuccess string
  | LogError string
  | NewJsonRpcProvider string
  | NewWallet string
  | ContractDeploy string string
  | WaitForDeployment
  | GetAddress
  | SaveDeploymentConfig string string string

datatype 'a completion = Returned 'a | Threw js_error | Exited nat

definition requiredEnvVars :: "string list" where
  "requiredEnvVars =
     [''VITE_ALCHEMY_API_KEY'', ''PRIVATE_KEY'', ''DEPLOYER_ADDRESS'', ''BRAIDS_TOKEN_ADDRESS'']"

definition falsy_str :: "string option \<Rightarrow> bool" where
  \<comment> \<open>\<open>!process.env[varName]\<close>: the variable is undefined or the empty string\<close>
  "falsy_str v = (case v of None \<Rightarrow> True | Some s \<Rightarrow> s = [])"

definition startsWith :: "string \<Rightarrow> string \<Rightarrow> bool" where
  "startsWith s p = (take (length p) s = p)"

definition validateEnvironment :: "process_env \<Rightarrow> unit completion \<times> deploy_event list" where
  "validateEnvironment env =
     (let missingVars = filter (\<lambda>varName. falsy_str (env varName)) requiredEnvVars;
          t0 = [LogInfo ''Validating environment...'']
      in if length missingVars > 0
         then (Exited 1,
               t0 @ [LogError ''Missing required environment variables:'']
                  @ map (\<lambda>varName. LogError (''  - '' @ varName)) missingVars)
         else (case env ''PRIVATE_KEY'' of
                 None \<Rightarrow>
                   (Threw (Error ''Cannot read properties of undefined (reading 'startsWith')''), t0)
               | Some privateKey \<Rightarrow>
                   if \<not> startsWith privateKey ''0x'' \<or> length privateKey \<noteq> 66
                   then (Exited 1,
                         t0 @ [LogError
                           ''Invalid PRIVATE_KEY format. Must be a 32-byte hex string with 0x prefix.''])
                   else (Returned (), t0 @ [LogSuccess ''Environment validation passed''])))"

text \<open>
  The calls of \<open>deploy\<close> into ethers and the file system are answered by the
  outside world: each either throws or returns. \<open>configPath\<close> is
  \<open>join(process.cwd(), 'deployment', 'deployment.json')\<close>, and \<open>saveConfig\<close> is the
  outcome of creating the directory and writing the file in \<open>saveDeploymentConfig\<close>.
\<close>

record deploy_world =
  walletCtor :: "string \<Rightarrow> js_error + unit"
  factoryDeploy :: "js_error + unit"
  waitForDeployment :: "js_error + unit"
  getAddress_r :: "js_error + string"
  nowISO :: string
  configPath :: string
  saveConfig :: "js_error + unit"

definition env_str :: "process_env \<Rightarrow> string \<Rightarrow> string" where
  \<comment> \<open>a variable printed or passed on; \<open>undefined\<close> prints as such\<close>
  "env_str env k = (case env k of None \<Rightarrow> ''undefined'' | Some s \<Rightarrow> s)"

definition deploy_catch :: "js_error \<Rightarrow> deploy_event list \<Rightarrow> unit completion \<times> deploy_event list" where
  \<comment> \<open>the \<open>catch\<close> block of \<open>deploy\<close>\<close>
  "deploy_catch e t = (Exited 1, t @ [LogError ''Deployment failed:'', LogError (message e)])"

definition deploy_body ::
  "deploy_world \<Rightarrow> process_env \<Rightarrow> deploy_event list \<Rightarrow> unit completion \<times> deploy_event list" where
  \<comment> \<open>the \<open>try\<close> block of \<open>deploy\<close> after \<open>validateEnvironment()\<close> has returned\<close>
  "deploy_body w env t0 =
     (let pk = env_str env ''PRIVATE_KEY'';
          token = env_str env ''BRAIDS_TOKEN_ADDRESS'';
          deployer = env_str env ''DEPLOYER_ADDRESS'';
          t1 = t0 @ [NewJsonRpcProvider ''https://api.roninchain.com/rpc'', NewWallet pk]
      in case walletCtor w pk of
           Inl e \<Rightarrow> (Threw e, t1)
         | Inr _ \<Rightarrow>
             let t2 = t1 @ [LogInfo ''Deploying StakingPool contract...'',
                            ContractDeploy token deployer]
             in case factoryDeploy w of
                  Inl e \<Rightarrow> (Threw e, t2)
                | Inr _ \<Rightarrow>
                    let t3 = t2 @ [WaitForDeployment]
                    in case waitForDeployment w of
                         Inl e \<Rightarrow> (Threw e, t3)
                       | Inr _ \<Rightarrow>
                           let t4 = t3 @ [GetAddress]
                           in case getAddress_r w of
                                Inl e \<Rightarrow> (Threw e, t4)
                              | Inr contractAddress \<Rightarrow>
                                  let t5 = t4 @ [LogSuccess (''StakingPool deployed to: '' @ contractAddress),
                                                 SaveDeploymentConfig (nowISO w) deployer contractAddress]
                                  in case saveConfig w of
                                       Inl e \<Rightarrow> (Threw e, t5)
                                     | Inr _ \<Rightarrow>
                                         (Returned (),
                                          t5 @ [LogSuccess (''Deployment configuration saved to ''
                                                            @ configPath w),
                                                LogSuccess ''Deployment completed successfully!'',
                                                LogInfo ''\<newline>Contract addresses:'',
                                                LogInfo (''StakingPool: '' @ contractAddress),
                                                LogInfo (''BRAIDS Token: '' @ token)]))"

definition deploy :: "deploy_world \<Rightarrow> process_env \<Rightarrow> unit completion \<times> deploy_event list" where
  "deploy w env =
     (case validateEnvironment env of
        (Exited n, t) \<Rightarrow> (Exited n, t)
      | (Threw e, t) \<Rightarrow> deploy_catch e t
      | (Returned _, t) \<Rightarrow>
          (case deploy_body w env t of
             (Threw e, t') \<Rightarrow> deploy_catch e t'
           | r \<Rightarrow> r))"

fun is_log :: "deploy_event \<Rightarrow> bool" where
  "is_log (LogInfo _) = True"
| "is_log (LogSuccess _) = True"
| "is_log (LogError _) = True"
| "is_log _ = False"

definition malformed_key :: "string option \<Rightarrow> bool" where
  \<comment> \<open>missing, not starting with \<open>0x\<close>, or of a length other than 66\<close>
  "malformed_key k =
     (case k of None \<Rightarrow> True
      | Some s \<Rightarrow> \<not> startsWith s ''0x'' \<or> length s \<noteq> 66)"

section \<open>Reads with retry (\<open>src/utils/alchemy.ts\<close>)\<close>

text \<open>
  \<open>retryOperation\<close> calls an operation until it succeeds, at most \<open>maxRetries\<close> times.
  The operation talks to the network, so its outcome may differ from call to call:
  \<open>operation i\<close> is the outcome of the call made in iteration \<open>i\<close> of the loop (the call
  throwing and the returned promise rejecting both land in the \<open>catch\<close>). The trace
  records every call of the operation and every \<open>setTimeout\<close> delay, in milliseconds.
  When the loop ends without a \<open>return\<close> the function resolves with \<open>undefined\<close>,
  here \<open>Inr None\<close>.
\<close>

datatype retry_event = Attempt nat | Sleep nat

function retryLoop ::
  "(nat \<Rightarrow> js_error + 'a) \<Rightarrow> nat \<Rightarrow> nat \<Rightarrow> retry_event list
     \<Rightarrow> (js_error + 'a option) \<times> retry_event list" where
  "retryLoop operation maxRetries i t =
     (if i < maxRetries
      then (case operation i of
              Inr v \<Rightarrow> (Inr (Some v), t @ [Attempt i])
            | Inl e \<Rightarrow>
                if i = maxRetries - 1 then (Inl e, t @ [Attempt i])
                else retryLoop operation maxRetries (i + 1)
                       (t @ [Attempt i, Sleep (1000 * (i + 1))]))
      else (Inr None, t))"
  by pat_completeness auto
termination
  by (relation "measure (\<lambda>(operation, maxRetries, i, t). maxRetries - i)") auto

declare retryLoop.simps [simp del]

definition retryOperation ::
  "(nat \<Rightarrow> js_error + 'a) \<Rightarrow> nat \<Rightarrow> (js_error + 'a option) \<times> retry_event list" where
  "retryOperation operation maxRetries = retryLoop operation maxRetries 0 []"

definition defaultMaxRetries :: nat where
  \<comment> \<open>the default of the parameter \<open>maxRetries\<close>; no caller passes another value\<close>
  "defaultMaxRetries = 3"

text \<open>
  \<open>getTokenBalance\<close>: \<open>getAddress\<close> (viem's checksum formatting) throws on an
  ill-formed address; \<open>toString\<close> stands for the method of the balance object that
  the SDK returns. Everything is inside one \<open>try\<close>, whose \<open>catch\<close> returns \<open>'0'\<close>.
\<close>

definition getTokenBalance ::
  "(string \<Rightarrow> js_error + string) \<Rightarrow> ('b \<Rightarrow> string)
     \<Rightarrow> (string \<Rightarrow> string \<Rightarrow> nat \<Rightarrow> js_error + 'b) \<Rightarrow> string \<Rightarrow> string \<Rightarrow> string" where
  "getTokenBalance getAddress toString alchemyGetTokenBalance address tokenAddress =
     (case getAddress address of
        Inl e \<Rightarrow> ''0''
      | Inr formattedAddress \<Rightarrow>
          (case getAddress tokenAddress of
             Inl e \<Rightarrow> ''0''
           | Inr formattedTokenAddress \<Rightarrow>
               (case fst (retryOperation
                            (alchemyGetTokenBalance formattedAddress formattedTokenAddress)
                            defaultMaxRetries) of
                  Inl e \<Rightarrow> ''0''
                | Inr None \<Rightarrow> ''0''
                | Inr (Some balance) \<Rightarrow> toString balance)))"

record ValidatorInfo =
  vi_totalStake :: int
  vi_commission :: int
  vi_apr :: int
  vi_uptime :: int
  vi_lastSignedBlock :: int

record ValidatorData =
  totalStake :: string
  commission :: string
  uptime :: string
  lastSignedBlock :: string
  apr :: string
  totalDelegators :: nat

definition fallbackValidatorData :: ValidatorData where
  \<comment> \<open>the object returned by the \<open>catch\<close> block of \<open>getValidatorData\<close>\<close>
  "fallbackValidatorData =
     \<lparr>totalStake = ''4000000000000000000000'', commission = ''10'', uptime = ''99.98'',
      lastSignedBlock = ''1234567'', apr = ''12.5'', totalDelegators = 3\<rparr>"

text \<open>
  \<open>getValidatorData\<close> starts both reads and awaits \<open>Promise.all\<close> of them, which rejects
  as soon as one of them does. \<open>bigintToString\<close> is \<open>BigInt.prototype.toString\<close> and
  \<open>percentToFixed2 n\<close> is \<open>(Number(n) / 100).toFixed(2)\<close>; neither throws.
\<close>

definition getValidatorData ::
  "(string \<Rightarrow> js_error + string) \<Rightarrow> (int \<Rightarrow> string) \<Rightarrow> (int \<Rightarrow> string)
     \<Rightarrow> (string \<Rightarrow> nat \<Rightarrow> js_error + ValidatorInfo) \<Rightarrow> (string \<Rightarrow> nat \<Rightarrow> js_error + 'd list)
     \<Rightarrow> string \<Rightarrow> ValidatorData" where
  "getValidatorData getAddress bigintToString percentToFixed2 readValidatorInfo readDelegators
       validatorAddress =
     (case getAddress validatorAddress of
        Inl e \<Rightarrow> fallbackValidatorData
      | Inr formattedAddress \<Rightarrow>
          (case (fst (retryOperation (readValidatorInfo formattedAddress) defaultMaxRetries),
                 fst (retryOperation (readDelegators formattedAddress) defaultMaxRetries)) of
             (Inr (Some validatorInfo), Inr (Some delegators)) \<Rightarrow>
               \<lparr>totalStake = bigintToString (vi_totalStake validatorInfo),
                commission = percentToFixed2 (vi_commission validatorInfo),
                uptime = percentToFixed2 (vi_uptime validatorInfo),
                lastSignedBlock = bigintToString (vi_lastSignedBlock validatorInfo),
                apr = percentToFixed2 (vi_apr validatorInfo),
                totalDelegators = length delegators\<rparr>
           | _ \<Rightarrow> fallbackValidatorData))"

fun is_attempt :: "retry_event \<Rightarrow> bool" where
  "is_attempt (Attempt _) = True"
| "is_attempt (Sleep _) = False"

fun backoff_from :: "nat \<Rightarrow> nat \<Rightarrow> retry_event list" where
  \<comment> \<open>the attempts \<open>i, \<dots>, i + m\<close>, with the delay \<open>1000 * (j + 1)\<close> after the failed attempt \<open>j\<close>\<close>
  "backoff_from i 0 = [Attempt i]"
| "backoff_from i (Suc m) = Attempt i # Sleep (1000 * (i + 1)) # backoff_from (Suc i) m"

definition all_attempts_fail :: "(nat \<Rightarrow> js_error + 'a) \<Rightarrow> nat \<Rightarrow> bool" where
  "all_attempts_fail operation n = list_all (\<lambda>i. isl (operation i)) [0..<n]"

definition first_success :: "(nat \<Rightarrow> js_error + 'a) \<Rightarrow> nat \<Rightarrow> 'a option" where
  \<comment> \<open>the value of the first of the calls \<open>0, \<dots>, n - 1\<close> that succeeds, if one does\<close>
  "first_success operation n =
     (case find (\<lambda>i. \<not> isl (operation i)) [0..<n] of
        None \<Rightarrow> None
      | Some i \<Rightarrow> (case operation i of Inl e \<Rightarrow> None | Inr v \<Rightarrow> Some v))"

definition fails_once :: "'a \<Rightarrow> nat \<Rightarrow> js_error + 'a" where
  \<comment> \<open>a transient failure: the first call fails, every later call returns \<open>v\<close>\<close>
  "fails_once v i = (if i = 0 then Inl (Error ''timeout'') else Inr v)"

definition sample_validator_info :: ValidatorInfo where
  \<comment> \<open>the figures of one validator, as the contract would return them\<close>
  "sample_validator_info =
     \<lparr>vi_totalStake = 4000, vi_commission = 1000, vi_apr = 1250, vi_uptime = 9998,
      vi_lastSignedBlock = 1234567\<rparr>"

definition always_timeout :: "nat \<Rightarrow> js_error + 'a" where
  \<comment> \<open>an operation of which every call fails, each with its own message\<close>
  "always_timeout i = Inl (Error (''timeout '' @ replicate i CHR ''!''))"

section \<open>The contract module (\<open>src/contracts/StakingContract.ts\<close>)\<close>

text \<open>
  A call into the client library either throws while it is being made (\<open>Inl\<close>) or
  returns a promise, which settles as resolved or rejected. \<open>await\<close> inside a \<open>try\<close>
  turns both failures into the exception that the \<open>catch\<close> receives. An \<open>async\<close>
  function returns a promise: resolved with the returned value, rejected with the
  exception that leaves its body; when the body returns a promise, the function's
  promise settles as that promise does.
\<close>

datatype 'a promise = Resolves 'a | Rejects js_error

type_synonym 'a called = "js_error + 'a promise"

fun await :: "'a called \<Rightarrow> js_error + 'a" where
  "await (Inl e) = Inl e"
| "await (Inr (Resolves v)) = Inr v"
| "await (Inr (Rejects e)) = Inl e"

definition try_catch :: "(js_error + 'a) \<Rightarrow> (js_error \<Rightarrow> js_error + 'a) \<Rightarrow> js_error + 'a" where
  \<comment> \<open>\<open>try { body } catch (e) { handler }\<close>\<close>
  "try_catch body handler = (case body of Inl e \<Rightarrow> handler e | Inr v \<Rightarrow> Inr v)"

fun async :: "js_error + 'a \<Rightarrow> 'a promise" where
  \<comment> \<open>the promise of an \<open>async\<close> function whose body returns a plain value\<close>
  "async (Inl e) = Rejects e"
| "async (Inr v) = Resolves v"

fun async_returning :: "js_error + 'a promise \<Rightarrow> 'a promise" where
  \<comment> \<open>the promise of an \<open>async\<close> function whose body returns a promise\<close>
  "async_returning (Inl e) = Rejects e"
| "async_returning (Inr p) = p"

fun catch_null :: "'a promise \<Rightarrow> 'a option" where
  \<comment> \<open>\<open>await p.catch(() => null)\<close>\<close>
  "catch_null (Resolves v) = Some v"
| "catch_null (Rejects e) = None"

definition STAKING_CONTRACT_ADDRESS :: string where
  "STAKING_CONTRACT_ADDRESS = ''0x3B7C0285284949C08e468C92D4724cb4Bd619Ada''"

definition BRAIDS_TOKEN_ADDRESS :: string where
  "BRAIDS_TOKEN_ADDRESS = ''0xD144A6466aA76Cc3A892Fda9602372dd884a2C90''"

datatype role = ADMIN | MAINTAINER | DEPOSITOR

fun ROLES :: "role \<Rightarrow> string" where
  "ROLES ADMIN = ''0x0000000000000000000000000000000000000000000000000000000000000000''"
| "ROLES MAINTAINER = ''0x5d7a4c6a9aeaa9884a9d7b49fddaa143a7a193e06b15b7e36ef36d8d5008d313''"
| "ROLES DEPOSITOR = ''0x5e6a1cfbca0f5480af5d1fc1b7a145f773c987b7b8a0e7a7a8c21c9a9c6d8d0e''"

datatype js_arg = Addr string | Uint int | Undefined

datatype receipt_status = ReceiptSuccess | ReceiptReverted

datatype tx = Tx (tx_to: string) (tx_functionName: string) (tx_args: "js_arg list") (tx_gas: "int option")

text \<open>
  The wallet and RPC client, as the answers it gives. The view functions of the staking
  contract are typed by the ABI (\<open>uint256\<close> as an unbounded integer, \<open>bool\<close>); the
  fields \<open>read_*\<close> stand for the read of that view function, whether the source spells
  it \<open>contract.read.f(args)\<close> or \<open>publicClient.readContract({functionName: 'f', args})\<close>.
  The calls that the components make themselves and always await (\<open>getChainId\<close>, a
  token read by \<open>readContract\<close>, \<open>estimateContractGas\<close>, a write, the wait for a
  receipt) are given by their awaited outcome. \<open>waitForTransactionReceipt\<close> throws when
  no receipt is obtained and otherwise returns the receipt, of which the model keeps the
  field \<open>status\<close>: \<open>'success'\<close>, or \<open>'reverted'\<close> for a transaction that was mined and
  failed. The client is taken to be present (\<open>usePublicClient()\<close> has returned one).
\<close>

record client =
  getChainId :: "js_error + int"
  getContract :: "js_error + unit"
  read_totalSupply :: "int called"
  read_rewardRate :: "int called"
  read_paused :: "bool called"
  read_balanceOf :: "string \<Rightarrow> int called"
  read_earned :: "string \<Rightarrow> int called"
  read_userPoints :: "string \<Rightarrow> int called"
  read_stakingTime :: "string \<Rightarrow> int called"
  read_hasRole :: "string \<Rightarrow> string \<Rightarrow> bool called"
  readContract :: "string \<Rightarrow> string \<Rightarrow> js_arg list \<Rightarrow> js_error + int"
  estimateContractGas :: "string \<Rightarrow> string \<Rightarrow> js_arg list \<Rightarrow> js_error + int"
  writeContractAsync :: "tx \<Rightarrow> js_error + string"
  waitForTransactionReceipt :: "string \<Rightarrow> js_error + receipt_status"

record StakingStats =
  totalStaked :: int
  rewardRate :: int
  rewardForDuration :: int
  isPaused :: bool

record UserStats =
  stakedAmount :: int
  earnedRewards :: int
  stakingPoints :: int
  stakingTime :: int

text \<open>
  \<open>await Promise.all([a(), b(), c()])\<close>: the calls are made in the order of the array,
  and the first that throws ends the evaluation; the awaited result is the tuple of the
  values, or a rejection of one of the promises (the model takes the first in the order
  of the array).
\<close>

definition promise_all3 :: "'a called \<Rightarrow> 'b called \<Rightarrow> 'c called \<Rightarrow> js_error + 'a \<times> 'b \<times> 'c" where
  "promise_all3 a b c =
     (case a of Inl e \<Rightarrow> Inl e | Inr pa \<Rightarrow>
      case b of Inl e \<Rightarrow> Inl e | Inr pb \<Rightarrow>
      case c of Inl e \<Rightarrow> Inl e | Inr pc \<Rightarrow>
      case pa of Rejects e \<Rightarrow> Inl e | Resolves x \<Rightarrow>
      case pb of Rejects e \<Rightarrow> Inl e | Resolves y \<Rightarrow>
      case pc of Rejects e \<Rightarrow> Inl e | Resolves z \<Rightarrow> Inr (x, y, z))"

definition promise_all4 ::
  "'a called \<Rightarrow> 'b called \<Rightarrow> 'c called \<Rightarrow> 'd called \<Rightarrow> js_error + 'a \<times> 'b \<times> 'c \<times> 'd" where
  "promise_all4 a b c d =
     (case a of Inl e \<Rightarrow> Inl e | Inr pa \<Rightarrow>
      case b of Inl e \<Rightarrow> Inl e | Inr pb \<Rightarrow>
      case c of Inl e \<Rightarrow> Inl e | Inr pc \<Rightarrow>
      case d of Inl e \<Rightarrow> Inl e | Inr pd \<Rightarrow>
      case pa of Rejects e \<Rightarrow> Inl e | Resolves x \<Rightarrow>
      case pb of Rejects e \<Rightarrow> Inl e | Resolves y \<Rightarrow>
      case pc of Rejects e \<Rightarrow> Inl e | Resolves z \<Rightarrow>
      case pd of Rejects e \<Rightarrow> Inl e | Resolves u \<Rightarrow> Inr (x, y, z, u))"

definition defaultStakingStats :: StakingStats where
  "defaultStakingStats = \<lparr>totalStaked = 0, rewardRate = 0, rewardForDuration = 0, isPaused = False\<rparr>"

definition getStakingStats :: "client \<Rightarrow> StakingStats promise" where
  "getStakingStats publicClient =
     async (try_catch
       (case getContract publicClient of
          Inl e \<Rightarrow> Inl e
        | Inr contract \<Rightarrow>
            (case promise_all3 (read_totalSupply publicClient) (read_rewardRate publicClient)
                    (read_paused publicClient) of
               Inl e \<Rightarrow> Inl e
             | Inr (totalStaked', rewardRate', isPaused') \<Rightarrow>
                 Inr \<lparr>totalStaked = totalStaked', rewardRate = rewardRate',
                      rewardForDuration = rewardRate' * 604800, isPaused = isPaused'\<rparr>))
       (\<lambda>error. Inr defaultStakingStats))"

definition defaultUserStats :: UserStats where
  "defaultUserStats = \<lparr>stakedAmount = 0, earnedRewards = 0, stakingPoints = 0, stakingTime = 0\<rparr>"

definition getUserStats :: "client \<Rightarrow> string \<Rightarrow> UserStats promise" where
  "getUserStats publicClient address =
     async (try_catch
       (case getContract publicClient of
          Inl e \<Rightarrow> Inl e
        | Inr contract \<Rightarrow>
            (case promise_all4 (read_balanceOf publicClient address) (read_earned publicClient address)
                    (read_userPoints publicClient address) (read_stakingTime publicClient address) of
               Inl e \<Rightarrow> Inl e
             | Inr (stakedAmount', earnedRewards', stakingPoints', stakingTime') \<Rightarrow>
                 Inr \<lparr>stakedAmount = stakedAmount', earnedRewards = earnedRewards',
                      stakingPoints = stakingPoints', stakingTime = stakingTime'\<rparr>))
       (\<lambda>error. Inr defaultUserStats))"

text \<open>
  \<open>checkRole\<close> returns the promise of the read from inside its \<open>try\<close> without awaiting
  it: \<open>return contract.read.hasRole([ROLES[role], address])\<close>.
\<close>

definition checkRole :: "client \<Rightarrow> string \<Rightarrow> role \<Rightarrow> bool promise" where
  "checkRole publicClient address role =
     async_returning (try_catch
       (case getContract publicClient of
          Inl e \<Rightarrow> Inl e
        | Inr contract \<Rightarrow> read_hasRole publicClient (ROLES role) address)
       (\<lambda>error. Inr (Resolves False)))"

subsection \<open>The revision with \<open>safeRead\<close> (src/unnamed/part_009)\<close>

definition safeRead :: "'a called \<Rightarrow> 'a \<Rightarrow> 'a promise" where
  \<comment> \<open>\<open>try { return await fn(); } catch (error) { return fallback; }\<close>\<close>
  "safeRead fn fallback = async (try_catch (await fn) (\<lambda>error. Inr fallback))"

fun awaited :: "'a promise \<Rightarrow> js_error + 'a" where
  \<comment> \<open>\<open>await p\<close> for a promise at hand\<close>
  "awaited (Resolves v) = Inr v"
| "awaited (Rejects e) = Inl e"

definition getStakingStats_safeRead :: "client \<Rightarrow> StakingStats promise" where
  "getStakingStats_safeRead publicClient =
     async
       (case awaited (safeRead (read_totalSupply publicClient) 0) of
          Inl e \<Rightarrow> Inl e
        | Inr totalStaked' \<Rightarrow>
            (case awaited (safeRead (read_rewardRate publicClient) 0) of
               Inl e \<Rightarrow> Inl e
             | Inr rewardRate' \<Rightarrow>
                 (case awaited (safeRead (read_paused publicClient) False) of
                    Inl e \<Rightarrow> Inl e
                  | Inr isPaused' \<Rightarrow>
                      Inr \<lparr>totalStaked = totalStaked', rewardRate = rewardRate',
                           rewardForDuration = rewardRate' * 604800, isPaused = isPaused'\<rparr>)))"

definition checkRole_safeRead :: "client \<Rightarrow> string \<Rightarrow> role \<Rightarrow> bool promise" where
  "checkRole_safeRead publicClient address role =
     async (awaited (safeRead (read_hasRole publicClient (ROLES role) address) False))"

section \<open>The staking dashboard (\<open>src/components/StakingDashboard.tsx\<close>)\<close>

text \<open>
  The state of the component that the handlers read and write: the connected address,
  the two fetched snapshots, the two amount inputs, the error banner, the two busy
  flags, and the wallet's token balance (\<open>braidsBalance?.value\<close>, from a hook). The
  modal flags and the token price play no part in the handlers and are left out.
  A handler runs on the state of the render that created it; the fields it reads are
  not among those it has written before the read, so one state is threaded through.
  Every call that a handler makes to the outside is recorded, in order.
\<close>

record dashboard =
  address :: "string option"
  stakingStats :: "StakingStats option"
  userStats :: "UserStats option"
  stakeAmount :: string
  unstakeAmount :: string
  error :: "string option"
  transactionInProgress :: bool
  isLoading :: bool
  braidsBalance :: "int option"

datatype call =
    GetChainId
  | GetStakingStats
  | GetUserStats string
  | CheckRole string role
  | ReadContract string string "js_arg list"
  | EstimateContractGas string string "js_arg list"
  | WriteContract tx
  | WaitForTransactionReceipt string

definition bigint_prop :: "StakingStats \<Rightarrow> string \<Rightarrow> int option" where
  \<comment> \<open>reading a property by name from the object that \<open>getStakingStats\<close> returns; its
      own properties are those of \<open>StakingStats\<close>, and the boolean \<open>isPaused\<close> is read
      through its selector\<close>
  "bigint_prop obj name =
     (if name = ''totalStaked'' then Some (totalStaked obj)
      else if name = ''rewardRate'' then Some (rewardRate obj)
      else if name = ''rewardForDuration'' then Some (rewardForDuration obj)
      else None)"

definition opt_prop :: "StakingStats option \<Rightarrow> string \<Rightarrow> int option" where
  \<comment> \<open>\<open>stakingStats?.name\<close>\<close>
  "opt_prop obj name = (case obj of None \<Rightarrow> None | Some s \<Rightarrow> bigint_prop s name)"

definition falsy_bigint :: "int option \<Rightarrow> bool" where
  \<comment> \<open>\<open>!v\<close> for a value that is \<open>undefined\<close> or a bigint\<close>
  "falsy_bigint v = (case v of None \<Rightarrow> True | Some n \<Rightarrow> n = 0)"

definition etherNumber :: "int \<Rightarrow> rat" where
  \<comment> \<open>\<open>Number(formatEther(x))\<close>: \<open>x\<close> base units as a number of tokens. The source holds
      the double nearest to this value; the rounding of floating point is left out.\<close>
  "etherNumber x = of_int x / 10 ^ 18"

definition aprOf :: "int option \<Rightarrow> int option \<Rightarrow> rat" where
  \<comment> \<open>the body of \<open>calculateAPR\<close> on the two properties that it reads\<close>
  "aprOf dailyRewardsProp totalStakedProp =
     (if falsy_bigint dailyRewardsProp \<or> falsy_bigint totalStakedProp then 0
      else (case (dailyRewardsProp, totalStakedProp) of
              (Some d, Some t) \<Rightarrow>
                (let dailyRewards = etherNumber d; totalStaked' = etherNumber t
                 in if totalStaked' > 0 then ((dailyRewards * 365) / totalStaked') * 100 else 0)
            | _ \<Rightarrow> 0))"

definition calculateAPR :: "StakingStats option \<Rightarrow> rat" where
  "calculateAPR stakingStats' =
     aprOf (opt_prop stakingStats' ''dailyRewards'') (opt_prop stakingStats' ''totalStaked'')"

definition fetchData :: "client \<Rightarrow> dashboard \<Rightarrow> dashboard \<times> call list" where
  "fetchData publicClient st =
     (case address st of
        None \<Rightarrow> (st, [])
      | Some address' \<Rightarrow>
          (let st1 = st\<lparr>isLoading := True, error := None\<rparr>;
               catch = (\<lambda>err t. (st1\<lparr>error := Some (message err), isLoading := False\<rparr>, t))
           in case getChainId publicClient of
                Inl err \<Rightarrow> catch err [GetChainId]
              | Inr chainId \<Rightarrow>
                  if chainId \<noteq> 2020
                  then catch (Error ''Please connect to Ronin Mainnet'') [GetChainId]
                  else (let t = [GetChainId, GetStakingStats, GetUserStats address'];
                            newStakingStats = catch_null (getStakingStats publicClient);
                            newUserStats = catch_null (getUserStats publicClient address')
                        in case (newStakingStats, newUserStats) of
                             (Some s, Some u) \<Rightarrow>
                               (st1\<lparr>stakingStats := Some s, userStats := Some u,
                                    isLoading := False\<rparr>, t)
                           | _ \<Rightarrow> catch (Error ''Failed to fetch staking data'') t)))"

text \<open>
  \<open>parseEther\<close> is viem's; the handlers take it as a parameter. It throws on a string
  that is not a decimal number.
\<close>

definition stake_approve :: "client \<Rightarrow> int \<Rightarrow> int \<Rightarrow> (js_error + unit) \<times> call list" where
  \<comment> \<open>\<open>handleStake\<close>: the approval, made when the allowance is below the amount\<close>
  "stake_approve publicClient currentAllowance parsedAmount =
     (if currentAllowance < parsedAmount
      then (let approveTx = Tx BRAIDS_TOKEN_ADDRESS ''approve''
                              [Addr STAKING_CONTRACT_ADDRESS, Uint parsedAmount] (Some 100000)
            in case writeContractAsync publicClient approveTx of
                 Inl err \<Rightarrow> (Inl err, [WriteContract approveTx])
               | Inr approveHash \<Rightarrow>
                   (case waitForTransactionReceipt publicClient approveHash of
                      Inl err \<Rightarrow>
                        (Inl err, [WriteContract approveTx, WaitForTransactionReceipt approveHash])
                    | Inr _ \<Rightarrow>
                        (Inr (), [WriteContract approveTx, WaitForTransactionReceipt approveHash])))
      else (Inr (), []))"

definition stake_submit :: "client \<Rightarrow> int \<Rightarrow> (js_error + unit) \<times> call list" where
  \<comment> \<open>\<open>handleStake\<close>: the gas estimate (for the connected account), the stake transaction
      and the wait for its receipt\<close>
  "stake_submit publicClient parsedAmount =
     (let est = EstimateContractGas STAKING_CONTRACT_ADDRESS ''stake'' [Uint parsedAmount]
      in case estimateContractGas publicClient STAKING_CONTRACT_ADDRESS ''stake'' [Uint parsedAmount] of
           Inl err \<Rightarrow> (Inl err, [est])
         | Inr gasEstimate \<Rightarrow>
             (let stakeTx = Tx STAKING_CONTRACT_ADDRESS ''stake'' [Uint parsedAmount]
                              (Some (if gasEstimate \<noteq> 0 then gasEstimate + 10000 else 300000))
              in case writeContractAsync publicClient stakeTx of
                   Inl err \<Rightarrow> (Inl err, [est, WriteContract stakeTx])
                 | Inr hash \<Rightarrow>
                     (case waitForTransactionReceipt publicClient hash of
                        Inl err \<Rightarrow>
                          (Inl err, [est, WriteContract stakeTx, WaitForTransactionReceipt hash])
                      | Inr _ \<Rightarrow>
                          (Inr (), [est, WriteContract stakeTx, WaitForTransactionReceipt hash]))))"

definition addr_arg :: "string option \<Rightarrow> js_arg" where
  "addr_arg a = (case a of None \<Rightarrow> Undefined | Some s \<Rightarrow> Addr s)"

definition handleStake_try ::
  "(string \<Rightarrow> js_error + int) \<Rightarrow> client \<Rightarrow> dashboard \<Rightarrow> (js_error + unit) \<times> dashboard \<times> call list" where
  \<comment> \<open>the \<open>try\<close> block of \<open>handleStake\<close>\<close>
  "handleStake_try parseEther publicClient st =
     (let st1 = st\<lparr>transactionInProgress := True\<rparr>
      in case parseEther (stakeAmount st) of
           Inl err \<Rightarrow> (Inl err, st1, [])
         | Inr parsedAmount \<Rightarrow>
             if parsedAmount \<le> 0 then (Inl (Error ''Amount must be greater than 0''), st1, [])
             else (case parseEther ''1000000'' of
                     Inl err \<Rightarrow> (Inl err, st1, [])
                   | Inr limit \<Rightarrow>
                       if parsedAmount > limit
                       then (Inl (Error ''Amount exceeds maximum stake limit of 1,000,000 BRAIDS''),
                             st1, [])
                       else if (case braidsBalance st of None \<Rightarrow> False
                                | Some v \<Rightarrow> parsedAmount > v)
                       then (Inl (Error ''Insufficient BRAIDS balance''), st1, [])
                       else (let allowanceArgs = [addr_arg (address st), Addr STAKING_CONTRACT_ADDRESS];
                                 t0 = [ReadContract BRAIDS_TOKEN_ADDRESS ''allowance'' allowanceArgs]
                             in case readContract publicClient BRAIDS_TOKEN_ADDRESS ''allowance''
                                       allowanceArgs of
                                  Inl err \<Rightarrow> (Inl err, st1, t0)
                                | Inr currentAllowance \<Rightarrow>
                                    (case stake_approve publicClient currentAllowance parsedAmount of
                                       (Inl err, t1) \<Rightarrow> (Inl err, st1, t0 @ t1)
                                     | (Inr _, t1) \<Rightarrow>
                                         (case stake_submit publicClient parsedAmount of
                                            (Inl err, t2) \<Rightarrow> (Inl err, st1, t0 @ t1 @ t2)
                                          | (Inr _, t2) \<Rightarrow>
                                              (let (st2, t3) = fetchData publicClient st1
                                               in (Inr (), st2\<lparr>stakeAmount := []\<rparr>,
                                                   t0 @ t1 @ t2 @ t3)))))))"

fun str_includes :: "string \<Rightarrow> string \<Rightarrow> bool" where
  \<comment> \<open>\<open>s.includes(p)\<close>\<close>
  "str_includes [] p = (p = [])"
| "str_includes (c # s) p = (take (length p) (c # s) = p \<or> str_includes s p)"

definition str_or_empty :: "string option \<Rightarrow> string" where
  \<comment> \<open>an optional string property; \<open>undefined\<close> and \<open>''\<close> are both falsy, and the handlers
      only read the property after testing it\<close>
  "str_or_empty v = (case v of None \<Rightarrow> [] | Some s \<Rightarrow> s)"

definition stakeErrorMessage :: "js_error \<Rightarrow> string" where
  \<comment> \<open>the message that the \<open>catch\<close> block of \<open>handleStake\<close> builds\<close>
  "stakeErrorMessage err =
     (let errorMessage = ''Transaction failed! Contract Interaction with RON failed''
      in case revert err of
           Some rv \<Rightarrow>
             (let reason' = str_or_empty (reason rv);
                  data' = str_or_empty (data rv);
                  m1 = errorMessage @ '': '' @
                         (if reason' \<noteq> [] then reason'
                          else if data' \<noteq> [] then data'
                          else ''Unknown reason'')
              in if reason' \<noteq> [] \<and> str_includes reason' ''Panic''
                 then m1 @ '' - There was an arithmetic overflow in the contract. Please try a smaller amount or check the contract for issues.''
                 else if reason' \<noteq> [] \<and> str_includes reason' ''paused''
                 then m1 @ '' - Staking is paused. Please try again later.''
                 else m1)
         | None \<Rightarrow>
             if message err \<noteq> [] then errorMessage @ '': '' @ message err else errorMessage)"

definition handleStake ::
  "(string \<Rightarrow> js_error + int) \<Rightarrow> client \<Rightarrow> dashboard \<Rightarrow> dashboard \<times> call list" where
  "handleStake parseEther publicClient st =
     (if stakeAmount st = [] then (st, [])
      else (case handleStake_try parseEther publicClient st of
              (Inl err, st', t) \<Rightarrow>
                (st'\<lparr>error := Some (stakeErrorMessage err), transactionInProgress := False\<rparr>, t)
            | (Inr _, st', t) \<Rightarrow> (st'\<lparr>transactionInProgress := False\<rparr>, t)))"

definition handleUnstake_try ::
  "(string \<Rightarrow> js_error + int) \<Rightarrow> client \<Rightarrow> dashboard \<Rightarrow> (js_error + unit) \<times> dashboard \<times> call list" where
  "handleUnstake_try parseEther publicClient st =
     (let st1 = st\<lparr>transactionInProgress := True\<rparr>
      in case parseEther (unstakeAmount st) of
           Inl err \<Rightarrow> (Inl err, st1, [])
         | Inr parsedAmount \<Rightarrow>
             if parsedAmount \<le> 0 then (Inl (Error ''Amount must be greater than 0''), st1, [])
             else if (case userStats st of None \<Rightarrow> False
                      | Some u \<Rightarrow> stakedAmount u \<noteq> 0 \<and> parsedAmount > stakedAmount u)
             then (Inl (Error ''Insufficient staked amount''), st1, [])
             else (let withdrawTx = Tx STAKING_CONTRACT_ADDRESS ''withdraw'' [Uint parsedAmount]
                                      (Some 300000)
                   in case writeContractAsync publicClient withdrawTx of
                        Inl err \<Rightarrow> (Inl err, st1, [WriteContract withdrawTx])
                      | Inr hash \<Rightarrow>
                          (case waitForTransactionReceipt publicClient hash of
                             Inl err \<Rightarrow>
                               (Inl err, st1,
                                [WriteContract withdrawTx, WaitForTransactionReceipt hash])
                           | Inr _ \<Rightarrow>
                               (let (st2, t3) = fetchData publicClient st1
                                in (Inr (), st2\<lparr>unstakeAmount := []\<rparr>,
                                    [WriteContract withdrawTx, WaitForTransactionReceipt hash] @ t3)))))"

definition handleUnstake ::
  "(string \<Rightarrow> js_error + int) \<Rightarrow> client \<Rightarrow> dashboard \<Rightarrow> dashboard \<times> call list" where
  "handleUnstake parseEther publicClient st =
     (if unstakeAmount st = [] then (st, [])
      else (case handleUnstake_try parseEther publicClient st of
              (Inl err, st', t) \<Rightarrow>
                (st'\<lparr>error := Some (''Failed to unstake: '' @ message err),
                     transactionInProgress := False\<rparr>, t)
            | (Inr _, st', t) \<Rightarrow> (st'\<lparr>transactionInProgress := False\<rparr>, t)))"

definition noRewards :: "dashboard \<Rightarrow> bool" where
  \<comment> \<open>\<open>!userStats?.earnedRewards || userStats.earnedRewards <= 0n\<close>\<close>
  "noRewards st =
     (case userStats st of
        None \<Rightarrow> True
      | Some u \<Rightarrow> earnedRewards u = 0 \<or> earnedRewards u \<le> 0)"

definition handleClaim_try :: "client \<Rightarrow> dashboard \<Rightarrow> (js_error + unit) \<times> dashboard \<times> call list" where
  "handleClaim_try publicClient st =
     (let st1 = st\<lparr>transactionInProgress := True\<rparr>;
          claimTx = Tx STAKING_CONTRACT_ADDRESS ''getReward'' [] (Some 300000)
      in case writeContractAsync publicClient claimTx of
           Inl err \<Rightarrow> (Inl err, st1, [WriteContract claimTx])
         | Inr hash \<Rightarrow>
             (case waitForTransactionReceipt publicClient hash of
                Inl err \<Rightarrow> (Inl err, st1, [WriteContract claimTx, WaitForTransactionReceipt hash])
              | Inr _ \<Rightarrow>
                  (let (st2, t3) = fetchData publicClient st1
                   in (Inr (), st2, [WriteContract claimTx, WaitForTransactionReceipt hash] @ t3))))"

definition handleClaim :: "client \<Rightarrow> dashboard \<Rightarrow> dashboard \<times> call list" where
  "handleClaim publicClient st =
     (if noRewards st then (st, [])
      else (case handleClaim_try publicClient st of
              (Inl err, st', t) \<Rightarrow>
                (st'\<lparr>error := Some (''Claim failed: '' @ message err),
                     transactionInProgress := False\<rparr>, t)
            | (Inr _, st', t) \<Rightarrow> (st'\<lparr>transactionInProgress := False\<rparr>, t)))"

definition claimDisabled :: "dashboard \<Rightarrow> bool" where
  \<comment> \<open>the \<open>disabled\<close> attribute of the Claim button (and of the Restake button)\<close>
  "claimDisabled st = (noRewards st \<or> transactionInProgress st \<or> isLoading st)"

definition handleRestake_try :: "client \<Rightarrow> dashboard \<Rightarrow> (js_error + unit) \<times> dashboard \<times> call list" where
  "handleRestake_try publicClient st =
     (let st1 = st\<lparr>transactionInProgress := True\<rparr>;
          claimTx = Tx STAKING_CONTRACT_ADDRESS ''getReward'' [] (Some 300000)
      in case writeContractAsync publicClient claimTx of
           Inl err \<Rightarrow> (Inl err, st1, [WriteContract claimTx])
         | Inr claimHash \<Rightarrow>
             (case waitForTransactionReceipt publicClient claimHash of
                Inl err \<Rightarrow> (Inl err, st1, [WriteContract claimTx, WaitForTransactionReceipt claimHash])
              | Inr _ \<Rightarrow>
                  (let t1 = [WriteContract claimTx, WaitForTransactionReceipt claimHash];
                       stakeTx = Tx STAKING_CONTRACT_ADDRESS ''stake''
                                   [case userStats st of None \<Rightarrow> Undefined
                                    | Some u \<Rightarrow> Uint (earnedRewards u)] (Some 300000)
                   in case writeContractAsync publicClient stakeTx of
                        Inl err \<Rightarrow> (Inl err, st1, t1 @ [WriteContract stakeTx])
                      | Inr stakeHash \<Rightarrow>
                          (case waitForTransactionReceipt publicClient stakeHash of
                             Inl err \<Rightarrow>
                               (Inl err, st1,
                                t1 @ [WriteContract stakeTx, WaitForTransactionReceipt stakeHash])
                           | Inr _ \<Rightarrow>
                               (let (st2, t3) = fetchData publicClient st1
                                in (Inr (), st2,
                                    t1 @ [WriteContract stakeTx, WaitForTransactionReceipt stakeHash]
                                       @ t3))))))"

definition handleRestake :: "client \<Rightarrow> dashboard \<Rightarrow> dashboard \<times> call list" where
  "handleRestake publicClient st =
     (if noRewards st then (st, [])
      else (case handleRestake_try publicClient st of
              (Inl err, st', t) \<Rightarrow>
                (st'\<lparr>error := Some (''Restake failed: '' @ message err),
                     transactionInProgress := False\<rparr>, t)
            | (Inr _, st', t) \<Rightarrow> (st'\<lparr>transactionInProgress := False\<rparr>, t)))"

fun is_write :: "call \<Rightarrow> bool" where
  "is_write (WriteContract _) = True"
| "is_write _ = False"

subsection \<open>The revision with \<open>useContractWrite\<close> (src/unnamed/part_007)\<close>

text \<open>
  This revision keeps its busy flag in \<open>loading\<close>, here the field \<open>isLoading\<close>; its
  \<open>fetchData\<close> stores whatever the two reads give, \<open>null\<close> included, and its
  \<open>getReward\<close> is the write hook of the contract function of that name.
\<close>

definition fetchData_part007 :: "client \<Rightarrow> dashboard \<Rightarrow> dashboard \<times> call list" where
  "fetchData_part007 publicClient st =
     (case address st of
        None \<Rightarrow> (st, [])
      | Some address' \<Rightarrow>
          (let st1 = st\<lparr>isLoading := True, error := None\<rparr>;
               catch = (\<lambda>err t. (st1\<lparr>error := Some (message err), isLoading := False\<rparr>, t))
           in case getChainId publicClient of
                Inl err \<Rightarrow> catch err [GetChainId]
              | Inr chainId \<Rightarrow>
                  if chainId \<noteq> 2020
                  then catch (Error ''Please connect to Ronin Mainnet'') [GetChainId]
                  else (st1\<lparr>stakingStats := catch_null (getStakingStats publicClient),
                             userStats := catch_null (getUserStats publicClient address'),
                             isLoading := False\<rparr>,
                        [GetChainId, GetStakingStats, GetUserStats address'])))"

definition noRewards_part007 :: "dashboard \<Rightarrow> bool" where
  \<comment> \<open>\<open>!userStats || userStats.earnedRewards <= 0n\<close>\<close>
  "noRewards_part007 st = (case userStats st of None \<Rightarrow> True | Some u \<Rightarrow> earnedRewards u \<le> 0)"

definition handleClaim_part007 :: "client \<Rightarrow> dashboard \<Rightarrow> dashboard \<times> call list" where
  "handleClaim_part007 publicClient st =
     (if noRewards_part007 st then (st, [])
      else (let claimTx = Tx STAKING_CONTRACT_ADDRESS ''getReward'' [] None;
                catch = (\<lambda>err t. (st\<lparr>error := Some (''Claim failed: '' @ message err),
                                       transactionInProgress := False\<rparr>, t))
            in case writeContractAsync publicClient claimTx of
                 Inl err \<Rightarrow> catch err [WriteContract claimTx]
               | Inr hash \<Rightarrow>
                   (case waitForTransactionReceipt publicClient hash of
                      Inl err \<Rightarrow> catch err [WriteContract claimTx, WaitForTransactionReceipt hash]
                    | Inr _ \<Rightarrow>
                        (let (st2, t3) = fetchData_part007 publicClient st
                         in (st2\<lparr>transactionInProgress := False\<rparr>,
                             [WriteContract claimTx, WaitForTransactionReceipt hash] @ t3)))))"

definition claimDisabled_part007 :: "dashboard \<Rightarrow> bool" where
  "claimDisabled_part007 st = (noRewards_part007 st \<or> isLoading st \<or> transactionInProgress st)"

section \<open>Concrete clients and states\<close>

definition healthy_client :: client where
  \<comment> \<open>Ronin mainnet, every read and every transaction succeeds\<close>
  "healthy_client =
     \<lparr>getChainId = Inr 2020, getContract = Inr (),
      read_totalSupply = Inr (Resolves (1000 * 10 ^ 18)),
      read_rewardRate = Inr (Resolves (10 ^ 18)),
      read_paused = Inr (Resolves False),
      read_balanceOf = (\<lambda>a. Inr (Resolves (5 * 10 ^ 18))),
      read_earned = (\<lambda>a. Inr (Resolves (2 * 10 ^ 18))),
      read_userPoints = (\<lambda>a. Inr (Resolves 7)),
      read_stakingTime = (\<lambda>a. Inr (Resolves 1700000000)),
      read_hasRole = (\<lambda>r a. Inr (Resolves True)),
      readContract = (\<lambda>a f args. if f = ''allowance'' then Inr 0 else Inr (50 * 10 ^ 18)),
      estimateContractGas = (\<lambda>a f args. Inr 90000),
      writeContractAsync = (\<lambda>t. Inr (''0xhash-'' @ tx_functionName t)),
      waitForTransactionReceipt = (\<lambda>h. Inr ReceiptSuccess)\<rparr>"

definition rpc_error :: js_error where
  "rpc_error = Error ''HTTP request failed''"

definition rpc_down_client :: client where
  \<comment> \<open>every read of the staking contract returns a promise that rejects\<close>
  "rpc_down_client =
     healthy_client
       \<lparr>read_totalSupply := Inr (Rejects rpc_error), read_rewardRate := Inr (Rejects rpc_error),
        read_paused := Inr (Rejects rpc_error), read_balanceOf := (\<lambda>a. Inr (Rejects rpc_error)),
        read_earned := (\<lambda>a. Inr (Rejects rpc_error)), read_userPoints := (\<lambda>a. Inr (Rejects rpc_error)),
        read_stakingTime := (\<lambda>a. Inr (Rejects rpc_error)),
        read_hasRole := (\<lambda>r a. Inr (Rejects rpc_error))\<rparr>"

definition one_read_fails_client :: client where
  \<comment> \<open>only the read of \<open>totalSupply\<close> rejects\<close>
  "one_read_fails_client = healthy_client\<lparr>read_totalSupply := Inr (Rejects rpc_error)\<rparr>"

definition wrong_network_client :: client where
  \<comment> \<open>the wallet is on chain 1; everything else answers\<close>
  "wrong_network_client = healthy_client\<lparr>getChainId := Inr 1\<rparr>"

definition fresh_dashboard :: dashboard where
  \<comment> \<open>a connected wallet, before any snapshot has been fetched\<close>
  "fresh_dashboard =
     \<lparr>address = Some ''0x00000000000000000000000000000000000000aa'', stakingStats = None,
      userStats = None, stakeAmount = [], unstakeAmount = [], error = None,
      transactionInProgress = False, isLoading = False, braidsBalance = Some (5 * 10 ^ 18)\<rparr>"

definition typing_dashboard :: dashboard where
  \<comment> \<open>the same wallet with the amount 1 typed into the stake and the unstake input\<close>
  "typing_dashboard = fresh_dashboard\<lparr>stakeAmount := ''1'', unstakeAmount := ''1''\<rparr>"

definition or_default :: "js_error + 'a \<Rightarrow> 'a \<Rightarrow> 'a" where
  "or_default r d = (case r of Inl e \<Rightarrow> d | Inr v \<Rightarrow> v)"

definition zero_rewards_dashboard :: dashboard where
  \<comment> \<open>a snapshot has been fetched and shows nothing earned\<close>
  "zero_rewards_dashboard = fresh_dashboard\<lparr>userStats := Some defaultUserStats\<rparr>"

section \<open>Amounts in token units and in base units\<close>

text \<open>
  Modelled from the spec: \<open>parseEther\<close> and \<open>formatEther\<close> are imported from the
  library viem and are not under src/. The spec describes them as the conversion of an
  amount in human-readable decimal form to the contract's base-unit integer (18
  decimals) and back. \<open>parseEther\<close> is modelled on the strings that the amount inputs
  accept (the pattern \<open>^\d*\.?\d*$\<close>) with at most 18 fractional digits: it reads the
  integer digits followed by the fraction padded with zeros to 18 digits as one decimal
  number, the empty string of digits counting as zero. Any other string is outside the
  model (\<open>None\<close>). \<open>formatEther\<close> writes a non-negative integer with the last 18
  digits as the fraction, without trailing zeros and without the point when the
  fraction is empty.
\<close>

definition is_digit :: "char \<Rightarrow> bool" where
  "is_digit c = (48 \<le> (of_char c :: int) \<and> (of_char c :: int) \<le> 57)"

definition digit_val :: "char \<Rightarrow> int" where
  "digit_val c = of_char c - 48"

definition digit_char :: "int \<Rightarrow> char" where
  "digit_char d = char_of (48 + d)"

definition int_of_digits :: "string \<Rightarrow> int" where
  \<comment> \<open>\<open>BigInt(digits)\<close>, with \<open>BigInt('') = 0n\<close>\<close>
  "int_of_digits ds = foldl (\<lambda>a c. 10 * a + digit_val c) 0 ds"

function digits_of_int :: "int \<Rightarrow> string" where
  \<comment> \<open>\<open>n.toString()\<close> for \<open>n \<ge> 0\<close>\<close>
  "digits_of_int n =
     (if n < 10 then [digit_char n] else digits_of_int (n div 10) @ [digit_char (n mod 10)])"
  by pat_completeness auto
termination
  by (relation "measure nat") auto

declare digits_of_int.simps [simp del]

definition integer_part :: "string \<Rightarrow> string" where
  \<comment> \<open>\<open>value.split('.')[0]\<close>\<close>
  "integer_part s = takeWhile (\<lambda>c. c \<noteq> CHR ''.'') s"

definition fraction_part :: "string \<Rightarrow> string" where
  \<comment> \<open>\<open>value.split('.')[1]\<close>, empty when there is no point\<close>
  "fraction_part s = drop 1 (dropWhile (\<lambda>c. c \<noteq> CHR ''.'') s)"

definition accepted_amount :: "string \<Rightarrow> bool" where
  \<comment> \<open>digits, at most one point, at most 18 digits after it\<close>
  "accepted_amount s =
     (list_all is_digit (integer_part s) \<and> list_all is_digit (fraction_part s)
      \<and> length (fraction_part s) \<le> 18)"

definition padEnd :: "nat \<Rightarrow> string \<Rightarrow> string" where
  "padEnd n s = s @ replicate (n - length s) CHR ''0''"

definition padStart :: "nat \<Rightarrow> string \<Rightarrow> string" where
  "padStart n s = replicate (n - length s) CHR ''0'' @ s"

definition parseEther :: "string \<Rightarrow> int option" where
  \<comment> \<open>Modelled from the spec: viem's \<open>parseEther\<close>, the conversion of a decimal amount to
      base units with 18 decimals, on the accepted strings\<close>
  "parseEther s =
     (if accepted_amount s
      then Some (int_of_digits (integer_part s @ padEnd 18 (fraction_part s)))
      else None)"

definition strip_trailing_zeros :: "string \<Rightarrow> string" where
  "strip_trailing_zeros s = rev (dropWhile (\<lambda>c. c = CHR ''0'') (rev s))"

definition formatEther :: "int \<Rightarrow> string" where
  \<comment> \<open>Modelled from the spec: viem's \<open>formatEther\<close>, the conversion of base units back to
      a decimal amount with up to 18 fractional digits\<close>
  "formatEther n =
     (let display = padStart 18 (digits_of_int \<bar>n\<bar>);
          integer = take (length display - 18) display;
          fraction = strip_trailing_zeros (drop (length display - 18) display)
      in (if n < 0 then ''-'' else []) @ (if integer = [] then ''0'' else integer)
           @ (if fraction = [] then [] else CHR ''.'' # fraction))"

definition decimal_value :: "string \<Rightarrow> rat" where
  \<comment> \<open>the number that a decimal string denotes\<close>
  "decimal_value s =
     of_int (int_of_digits (integer_part s))
       + of_int (int_of_digits (fraction_part s)) / 10 ^ length (fraction_part s)"

definition viem_parseEther :: "string \<Rightarrow> js_error + int" where
  \<comment> \<open>\<open>parseEther\<close> as the handlers call it: it throws where the model has no value\<close>
  "viem_parseEther s =
     (case parseEther s of Some n \<Rightarrow> Inr n | None \<Rightarrow> Inl (Error ''InvalidDecimalNumberError''))"

section \<open>The admin dashboard (\<open>AdminDashboard.tsx\<close>, src/unnamed/part_004)\<close>

text \<open>
  The state of the admin component. The fields \<open>adm_address\<close>, \<open>adm_stakingStats\<close> and
  \<open>adm_error\<close> are \<open>address\<close>, \<open>stakingStats\<close> and \<open>error\<close> of the source; \<open>roles\<close> is
  spread over its three flags. The write hooks of \<open>useContractWrite\<close> are the client's
  \<open>writeContractAsync\<close> for the contract function of the hook, without a gas limit.
  The receipt watchers of the component run after a handler has returned and are not
  part of the handlers.
\<close>

datatype TransactionStatus = TxIdle | TxPreparing | TxPending | TxSuccess | TxError

record admin =
  adm_address :: "string option"
  adm_stakingStats :: "StakingStats option"
  isAdmin :: bool
  isMaintainer :: bool
  isDepositor :: bool
  rewardAmount :: string
  depositAmount :: string
  loading :: bool
  adm_error :: "string option"
  rewardTxStatus :: TransactionStatus
  pauseTxStatus :: TransactionStatus
  depositTxStatus :: TransactionStatus
  rewardTxHash :: "string option"
  pauseTxHash :: "string option"
  depositTxHash :: "string option"
  rewardInputError :: "string option"
  depositInputError :: "string option"

definition MAX_REWARD_AMOUNT :: string where
  "MAX_REWARD_AMOUNT = ''1000000''"

definition MIN_REWARD_AMOUNT :: string where
  "MIN_REWARD_AMOUNT = ''0.000001''"

text \<open>
  \<open>parseFloat\<close> returns a double; the validation only compares its result. A double is
  \<open>NaN\<close>, an infinity, or a rational number; \<open>parseFloat\<close> itself is a parameter.
\<close>

datatype js_number = NaN | Finite rat | PosInfinity | NegInfinity

fun num_less :: "js_number \<Rightarrow> js_number \<Rightarrow> bool" where
  \<comment> \<open>\<open>a < b\<close>\<close>
  "num_less NaN _ = False"
| "num_less _ NaN = False"
| "num_less (Finite a) (Finite b) = (a < b)"
| "num_less (Finite a) PosInfinity = True"
| "num_less (Finite a) NegInfinity = False"
| "num_less PosInfinity _ = False"
| "num_less NegInfinity NegInfinity = False"
| "num_less NegInfinity _ = True"

definition num_le :: "js_number \<Rightarrow> js_number \<Rightarrow> bool" where
  \<comment> \<open>\<open>a <= b\<close>\<close>
  "num_le a b = (a \<noteq> NaN \<and> b \<noteq> NaN \<and> (a = b \<or> num_less a b))"

definition admin_fetch_catch :: "js_error \<Rightarrow> admin \<Rightarrow> admin" where
  \<comment> \<open>the \<open>catch\<close> and \<open>finally\<close> blocks of \<open>fetchData\<close>\<close>
  "admin_fetch_catch err st =
     st\<lparr>adm_error := Some (''Failed to load admin data: ''
                           @ (if message err \<noteq> [] then message err else ''Unknown error'')),
        loading := False\<rparr>"

definition admin_fetchData :: "client \<Rightarrow> admin \<Rightarrow> admin \<times> call list" where
  "admin_fetchData publicClient st =
     (case adm_address st of
        None \<Rightarrow> (st, [])
      | Some address' \<Rightarrow>
          (let st1 = st\<lparr>loading := True, adm_error := None\<rparr>
           in case getChainId publicClient of
                Inl err \<Rightarrow> (admin_fetch_catch err st1, [GetChainId])
              | Inr chainId \<Rightarrow>
                  if chainId \<noteq> 2020
                  then (admin_fetch_catch (Error ''Please connect to Ronin mainnet'') st1, [GetChainId])
                  else (let t = [GetChainId, GetStakingStats, CheckRole address' ADMIN,
                                 CheckRole address' MAINTAINER, CheckRole address' DEPOSITOR]
                        in case promise_all4 (Inr (getStakingStats publicClient))
                                  (Inr (checkRole publicClient address' ADMIN))
                                  (Inr (checkRole publicClient address' MAINTAINER))
                                  (Inr (checkRole publicClient address' DEPOSITOR)) of
                             Inl err \<Rightarrow> (admin_fetch_catch err st1, t)
                           | Inr (newStakingStats, adminRole, maintainerRole, depositorRole) \<Rightarrow>
                               (st1\<lparr>adm_stakingStats := Some newStakingStats,
                                    isAdmin := adminRole, isMaintainer := maintainerRole,
                                    isDepositor := depositorRole, loading := False\<rparr>, t))))"

definition handleTransactionError :: "js_error \<Rightarrow> admin \<Rightarrow> admin" where
  "handleTransactionError err st =
     (if code err = Some 4001 then st\<lparr>adm_error := Some ''User rejected transaction''\<rparr>
      else if str_includes (message err) ''insufficient funds''
      then st\<lparr>adm_error := Some ''Insufficient funds for transaction''\<rparr>
      else st\<lparr>adm_error :=
                Some (if str_or_empty (shortMessage err) \<noteq> [] then str_or_empty (shortMessage err)
                      else if message err \<noteq> [] then message err
                      else ''Transaction failed'')\<rparr>)"

datatype tx_type = Reward | Pause | Deposit

fun set_status :: "tx_type \<Rightarrow> TransactionStatus \<Rightarrow> admin \<Rightarrow> admin" where
  \<comment> \<open>\<open>statusSetters[type](v)\<close>\<close>
  "set_status Reward v st = st\<lparr>rewardTxStatus := v\<rparr>"
| "set_status Pause v st = st\<lparr>pauseTxStatus := v\<rparr>"
| "set_status Deposit v st = st\<lparr>depositTxStatus := v\<rparr>"

fun set_hash :: "tx_type \<Rightarrow> string \<Rightarrow> admin \<Rightarrow> admin" where
  \<comment> \<open>\<open>hashSetters[type](h)\<close>\<close>
  "set_hash Reward h st = st\<lparr>rewardTxHash := Some h\<rparr>"
| "set_hash Pause h st = st\<lparr>pauseTxHash := Some h\<rparr>"
| "set_hash Deposit h st = st\<lparr>depositTxHash := Some h\<rparr>"

text \<open>
  \<open>handleTransaction\<close> runs an action inside its \<open>try\<close>. The action is the request
  that one of the write hooks is called with, or the exception thrown while the
  arguments of that call are computed.
\<close>

definition handleTransaction :: "client \<Rightarrow> js_error + tx \<Rightarrow> tx_type \<Rightarrow> admin \<Rightarrow> admin \<times> call list" where
  "handleTransaction publicClient action type st =
     (let st1 = (set_status type TxPreparing st)\<lparr>adm_error := None\<rparr>;
          catch = (\<lambda>err. handleTransactionError err (set_status type TxError st1))
      in case action of
           Inl err \<Rightarrow> (catch err, [])
         | Inr request \<Rightarrow>
             (case writeContractAsync publicClient request of
                Inl err \<Rightarrow> (catch err, [WriteContract request])
              | Inr hash \<Rightarrow>
                  (set_status type TxPending (set_hash type hash st1), [WriteContract request])))"

definition validateRewardAmount :: "(string \<Rightarrow> js_number) \<Rightarrow> string \<Rightarrow> admin \<Rightarrow> bool \<times> admin" where
  "validateRewardAmount parseFloat amount st =
     (if amount = [] then (False, st\<lparr>rewardInputError := Some ''Amount is required''\<rparr>)
      else (let numAmount = parseFloat amount
            in if numAmount = NaN
               then (False, st\<lparr>rewardInputError := Some ''Invalid number format''\<rparr>)
               else if num_le numAmount (Finite 0)
               then (False, st\<lparr>rewardInputError := Some ''Must be greater than 0''\<rparr>)
               else if num_less numAmount (parseFloat MIN_REWARD_AMOUNT)
               then (False, st\<lparr>rewardInputError := Some (''Minimum '' @ MIN_REWARD_AMOUNT)\<rparr>)
               else if num_less (parseFloat MAX_REWARD_AMOUNT) numAmount
               then (False, st\<lparr>rewardInputError := Some (''Maximum '' @ MAX_REWARD_AMOUNT)\<rparr>)
               else (True, st\<lparr>rewardInputError := None\<rparr>)))"

definition validateDepositAmount :: "(string \<Rightarrow> js_number) \<Rightarrow> string \<Rightarrow> admin \<Rightarrow> bool \<times> admin" where
  "validateDepositAmount parseFloat amount st =
     (if amount = [] then (False, st\<lparr>depositInputError := Some ''Amount is required''\<rparr>)
      else (let numAmount = parseFloat amount
            in if numAmount = NaN
               then (False, st\<lparr>depositInputError := Some ''Invalid number''\<rparr>)
               else if num_le numAmount (Finite 0)
               then (False, st\<lparr>depositInputError := Some ''Amount must be greater than zero''\<rparr>)
               else (True, st\<lparr>depositInputError := None\<rparr>)))"

definition handleSetRewards ::
  "(string \<Rightarrow> js_number) \<Rightarrow> (string \<Rightarrow> js_error + int) \<Rightarrow> client \<Rightarrow> admin \<Rightarrow> admin \<times> call list" where
  "handleSetRewards parseFloat parse publicClient st =
     (case validateRewardAmount parseFloat (rewardAmount st) st of
        (valid, st0) \<Rightarrow>
          if \<not> valid \<or> rewardTxStatus st \<noteq> TxIdle then (st0, [])
          else (let action = (case parse (rewardAmount st) of
                                Inl err \<Rightarrow> Inl err
                              | Inr v \<Rightarrow> Inr (Tx STAKING_CONTRACT_ADDRESS ''notifyRewardAmount''
                                                 [Uint v] None))
                in case handleTransaction publicClient action Reward st0 of
                     (st1, t) \<Rightarrow> (st1\<lparr>rewardAmount := []\<rparr>, t)))"

definition handlePauseToggle :: "client \<Rightarrow> admin \<Rightarrow> admin \<times> call list" where
  "handlePauseToggle publicClient st =
     (if pauseTxStatus st \<noteq> TxIdle then (st, [])
      else (let paused' = (case adm_stakingStats st of None \<Rightarrow> False | Some s \<Rightarrow> isPaused s);
                action = Tx STAKING_CONTRACT_ADDRESS (if paused' then ''unpause'' else ''pause'')
                            [] None
            in handleTransaction publicClient (Inr action) Pause st))"

definition deposit_approve :: "client \<Rightarrow> int \<Rightarrow> admin \<Rightarrow> (js_error + unit) \<times> admin \<times> call list" where
  \<comment> \<open>Step 1 of \<open>handleDepositRewards\<close>, with its own \<open>try\<close>; \<open>Inl\<close> is the exception that
      its \<open>catch\<close> has received\<close>
  "deposit_approve publicClient parsedAmount st =
     (let approveTx = Tx BRAIDS_TOKEN_ADDRESS ''approve''
                        [Addr STAKING_CONTRACT_ADDRESS, Uint parsedAmount] None
      in case writeContractAsync publicClient approveTx of
           Inl err \<Rightarrow> (Inl err, st, [WriteContract approveTx])
         | Inr approveHash \<Rightarrow>
             (let st1 = st\<lparr>depositTxHash := Some approveHash, depositTxStatus := TxPending\<rparr>;
                  t = [WriteContract approveTx, WaitForTransactionReceipt approveHash]
              in case waitForTransactionReceipt publicClient approveHash of
                   Inl err \<Rightarrow> (Inl err, st1, t)
                 | Inr _ \<Rightarrow> (Inr (), st1, t)))"

definition deposit_submit :: "client \<Rightarrow> int \<Rightarrow> admin \<Rightarrow> admin \<times> call list" where
  \<comment> \<open>Step 2 of \<open>handleDepositRewards\<close>, with its own \<open>try\<close> and \<open>catch\<close>. \<open>fetchData()\<close> is
      started without \<open>await\<close> as the last statement; what it does comes after.\<close>
  "deposit_submit publicClient parsedAmount st =
     (let depositTx = Tx STAKING_CONTRACT_ADDRESS ''depositRewards'' [Uint parsedAmount] None;
          catch = (\<lambda>s. s\<lparr>adm_error := Some ''Deposit transaction failed'',
                          depositTxStatus := TxError\<rparr>)
      in case writeContractAsync publicClient depositTx of
           Inl err \<Rightarrow> (catch st, [WriteContract depositTx])
         | Inr depositHash \<Rightarrow>
             (let st1 = st\<lparr>depositTxHash := Some depositHash, depositTxStatus := TxPending\<rparr>;
                  t = [WriteContract depositTx, WaitForTransactionReceipt depositHash]
              in case waitForTransactionReceipt publicClient depositHash of
                   Inl err \<Rightarrow> (catch st1, t)
                 | Inr _ \<Rightarrow>
                     (case admin_fetchData publicClient
                             (st1\<lparr>depositTxStatus := TxSuccess, depositAmount := []\<rparr>) of
                        (st2, t2) \<Rightarrow> (st2, t @ t2))))"

definition handleDepositRewards ::
  "(string \<Rightarrow> js_number) \<Rightarrow> (string \<Rightarrow> js_error + int) \<Rightarrow> client \<Rightarrow> admin
     \<Rightarrow> (js_error + unit) \<times> admin \<times> call list" where
  \<comment> \<open>\<open>Inl\<close>: the promise of the handler rejects (\<open>parseEther\<close> is called outside the \<open>try\<close>)\<close>
  "handleDepositRewards parseFloat parse publicClient st =
     (case validateDepositAmount parseFloat (depositAmount st) st of
        (valid, st0) \<Rightarrow>
          if \<not> valid \<or> depositTxStatus st \<noteq> TxIdle then (Inr (), st0, [])
          else (case parse (depositAmount st) of
                  Inl err \<Rightarrow> (Inl err, st0, [])
                | Inr parsedAmount \<Rightarrow>
                    (let st1 = st0\<lparr>depositTxStatus := TxPreparing, adm_error := None\<rparr>;
                         outer_catch = (\<lambda>err s. handleTransactionError err (s\<lparr>depositTxStatus := TxError\<rparr>));
                         readBalance = ReadContract BRAIDS_TOKEN_ADDRESS ''balanceOf''
                                         [addr_arg (adm_address st)];
                         allowanceArgs = [addr_arg (adm_address st), Addr STAKING_CONTRACT_ADDRESS];
                         readAllowance = ReadContract BRAIDS_TOKEN_ADDRESS ''allowance'' allowanceArgs
                     in case readContract publicClient BRAIDS_TOKEN_ADDRESS ''balanceOf''
                               [addr_arg (adm_address st)] of
                          Inl err \<Rightarrow> (Inr (), outer_catch err st1, [readBalance])
                        | Inr balance \<Rightarrow>
                            if parsedAmount > balance
                            then (Inr (), st1\<lparr>adm_error := Some ''Insufficient BRAIDS balance'',
                                               depositTxStatus := TxError\<rparr>, [readBalance])
                            else (case readContract publicClient BRAIDS_TOKEN_ADDRESS ''allowance''
                                         allowanceArgs of
                                    Inl err \<Rightarrow>
                                      (Inr (), outer_catch err st1, [readBalance, readAllowance])
                                  | Inr currentAllowance \<Rightarrow>
                                      if currentAllowance < parsedAmount
                                      then (case deposit_approve publicClient parsedAmount st1 of
                                              (Inl err, st2, t1) \<Rightarrow>
                                                (Inr (),
                                                 st2\<lparr>adm_error := Some ''Approval transaction failed'',
                                                      depositTxStatus := TxError\<rparr>,
                                                 [readBalance, readAllowance] @ t1)
                                            | (Inr _, st2, t1) \<Rightarrow>
                                                (case deposit_submit publicClient parsedAmount st2 of
                                                   (st3, t2) \<Rightarrow>
                                                     (Inr (), st3,
                                                      [readBalance, readAllowance] @ t1 @ t2)))
                                      else (case deposit_submit publicClient parsedAmount st1 of
                                              (st3, t2) \<Rightarrow>
                                                (Inr (), st3, [readBalance, readAllowance] @ t2))))))"

text \<open>
  What the two components render of the error state. \<open>StakingDashboard\<close> renders the
  banner \<open>{error && ...}\<close> first in its only view. \<open>AdminDashboard\<close> returns the
  "Connect Your Wallet" view without an address, the "Checking Permissions" or "Access
  Denied" view when none of the three roles is held, and only otherwise the panel with
  the banner. The wallet is connected exactly when the address is present.
\<close>

definition banner :: "string option \<Rightarrow> string option" where
  \<comment> \<open>\<open>{error && <div>{error}</div>}\<close>: nothing for \<open>null\<close> and for the empty string\<close>
  "banner err = (case err of None \<Rightarrow> None | Some m \<Rightarrow> if m = [] then None else Some m)"

definition dashboard_banner :: "dashboard \<Rightarrow> string option" where
  "dashboard_banner st = banner (error st)"

datatype admin_view = ConnectYourWallet | CheckingPermissions | AccessDenied | AdminPanel "string option"

definition admin_render :: "admin \<Rightarrow> admin_view" where
  "admin_render st =
     (if adm_address st = None then ConnectYourWallet
      else if \<not> isAdmin st \<and> \<not> isMaintainer st \<and> \<not> isDepositor st
      then (if loading st then CheckingPermissions else AccessDenied)
      else AdminPanel (banner (adm_error st)))"

definition no_role_admin :: admin where
  \<comment> \<open>a connected account before any role has been fetched\<close>
  "no_role_admin =
     \<lparr>adm_address = Some ''0x00000000000000000000000000000000000000aa'',
      adm_stakingStats = None, isAdmin = False, isMaintainer = False, isDepositor = False,
      rewardAmount = [], depositAmount = [], loading = True, adm_error = None,
      rewardTxStatus = TxIdle, pauseTxStatus = TxIdle, depositTxStatus = TxIdle,
      rewardTxHash = None, pauseTxHash = None, depositTxHash = None,
      rewardInputError = None, depositInputError = None\<rparr>"

definition approveRequest :: "int \<Rightarrow> tx" where
  \<comment> \<open>the request of Step 1 of \<open>handleDepositRewards\<close>\<close>
  "approveRequest amount =
     Tx BRAIDS_TOKEN_ADDRESS ''approve'' [Addr STAKING_CONTRACT_ADDRESS, Uint amount] None"

definition depositRequest :: "int \<Rightarrow> tx" where
  \<comment> \<open>the request of Step 2 of \<open>handleDepositRewards\<close>\<close>
  "depositRequest amount = Tx STAKING_CONTRACT_ADDRESS ''depositRewards'' [Uint amount] None"

definition balanceRead :: "admin \<Rightarrow> call" where
  "balanceRead st = ReadContract BRAIDS_TOKEN_ADDRESS ''balanceOf'' [addr_arg (adm_address st)]"

definition allowanceRead :: "admin \<Rightarrow> call" where
  "allowanceRead st =
     ReadContract BRAIDS_TOKEN_ADDRESS ''allowance''
       [addr_arg (adm_address st), Addr STAKING_CONTRACT_ADDRESS]"

definition depositor_admin :: admin where
  \<comment> \<open>a connected depositor who has typed the amount 1.5 and has no transaction under way\<close>
  "depositor_admin =
     \<lparr>adm_address = Some ''0x00000000000000000000000000000000000000aa'',
      adm_stakingStats = None, isAdmin = False, isMaintainer = False, isDepositor = True,
      rewardAmount = [], depositAmount = ''1.5'', loading = False, adm_error = None,
      rewardTxStatus = TxIdle, pauseTxStatus = TxIdle, depositTxStatus = TxIdle,
      rewardTxHash = None, pauseTxHash = None, depositTxHash = None,
      rewardInputError = None, depositInputError = None\<rparr>"

definition approve_rejected_client :: client where
  \<comment> \<open>the user rejects the approval in the wallet; every other call succeeds\<close>
  "approve_rejected_client =
     healthy_client
       \<lparr>writeContractAsync :=
          (\<lambda>t. if tx_functionName t = ''approve''
                then Inl \<lparr>message = ''User rejected the request.'', code = Some 4001,
                          shortMessage = None, revert = None\<rparr>
                else Inr (''0xhash-'' @ tx_functionName t))\<rparr>"

definition reverted_approval_client :: client where
  \<comment> \<open>the approval is mined and reverts: the wait for its receipt returns a receipt with
      status \<open>'reverted'\<close>; every other call succeeds\<close>
  "reverted_approval_client =
     healthy_client
       \<lparr>waitForTransactionReceipt :=
          (\<lambda>h. if h = ''0xhash-approve'' then Inr ReceiptReverted else Inr ReceiptSuccess)\<rparr>"

definition decimal_parseFloat :: "string \<Rightarrow> js_number" where
  \<comment> \<open>\<open>parseFloat\<close> on the accepted amount strings that have a digit, up to the rounding
      to a double; \<open>NaN\<close> elsewhere\<close>
  "decimal_parseFloat s =
     (if accepted_amount s \<and> integer_part s @ fraction_part s \<noteq> []
      then Finite (decimal_value s) else NaN)"

definition all_succeed_world :: deploy_world where
  \<comment> \<open>an outside world in which every call of the script succeeds\<close>
  "all_succeed_world =
     \<lparr>walletCtor = (\<lambda>_. Inr ()), factoryDeploy = Inr (), waitForDeployment = Inr (),
      getAddress_r = Inr ''0x7262035c2f5c2032e5247e6dd095fc02c889d5d6'',
      nowISO = ''2025-01-22T00:00:00.000Z'',
      configPath = ''/app/deployment/deployment.json'', saveConfig = Inr ()\<rparr>"

definition short_key_env :: process_env where
  \<comment> \<open>every required variable is set; the private key has the prefix but is too short\<close>
  "short_key_env =
     [''VITE_ALCHEMY_API_KEY'' \<mapsto> ''key'', ''PRIVATE_KEY'' \<mapsto> ''0x1234'',
      ''DEPLOYER_ADDRESS'' \<mapsto> ''0xaa'', ''BRAIDS_TOKEN_ADDRESS'' \<mapsto> ''0xbb'']"

section \<open>Theorems\<close>

subsection \<open>The deployment script\<close>

lemma validateEnvironment_malformed:
  assumes "malformed_key (env ''PRIVATE_KEY'')"
  shows "fst (validateEnvironment env) = Exited 1"
    and "list_all is_log (snd (validateEnvironment env))"
  using assms
  by (auto simp: validateEnvironment_def malformed_key_def falsy_str_def requiredEnvVars_def
        Let_def list_all_iff split: option.splits)

text \<open>
  C4. For every malformed private key (missing, not starting with \<open>0x\<close>, or of a
  length other than 66), the deployment script exits with status 1 during the validation
  of the environment: \<open>validateEnvironment\<close> itself ends the process, and everything
  \<open>deploy\<close> has done by then is logging: no RPC provider has been constructed, no wallet,
  and no network call has been made.
\<close>

theorem deploy_malformed_key_exits:
  assumes "malformed_key (env ''PRIVATE_KEY'')"
  shows "fst (validateEnvironment env) = Exited 1
       \<and> deploy w env = validateEnvironment env
       \<and> fst (deploy w env) = Exited 1
       \<and> list_all is_log (snd (deploy w env))"
proof -
  have ex: "fst (validateEnvironment env) = Exited 1"
    and lg: "list_all is_log (snd (validateEnvironment env))"
    using assms validateEnvironment_malformed [of env] by simp_all
  from ex have same: "deploy w env = validateEnvironment env"
    by (cases "validateEnvironment env") (simp add: deploy_def)
  from ex lg same show ?thesis by simp
qed

theorem deploy_malformed_key_exits_witness:
  "malformed_key (short_key_env ''PRIVATE_KEY'')
   \<and> fst (validateEnvironment short_key_env) = Exited 1
   \<and> deploy all_succeed_world short_key_env = validateEnvironment short_key_env
   \<and> fst (deploy all_succeed_world short_key_env) = Exited 1
   \<and> list_all is_log (snd (deploy all_succeed_world short_key_env))"
proof -
  have h: "malformed_key (short_key_env ''PRIVATE_KEY'')"
    by (simp add: malformed_key_def startsWith_def short_key_env_def)
  show ?thesis
    using h deploy_malformed_key_exits [of short_key_env all_succeed_world] by blast
qed

subsection \<open>Reads with retry\<close>

lemma retryLoop_shape:
  "i < n \<Longrightarrow>
   \<exists>m. i + m < n
     \<and> snd (retryLoop operation n i t) = t @ backoff_from i m
     \<and> (\<forall>j<m. isl (operation (i + j)))
     \<and> (\<forall>v. operation (i + m) = Inr v \<longrightarrow> fst (retryLoop operation n i t) = Inr (Some v))
     \<and> (\<forall>e. operation (i + m) = Inl e \<longrightarrow>
              i + m = n - 1 \<and> fst (retryLoop operation n i t) = Inl e)"
proof (induction operation n i t rule: retryLoop.induct)
  case (1 operation maxRetries i t)
  note unf = retryLoop.simps [of operation maxRetries i t]
  show ?case
  proof (cases "operation i")
    case (Inr v)
    with "1.prems" unf show ?thesis
      by (intro exI [of _ 0]) simp
  next
    case (Inl e)
    show ?thesis
    proof (cases "i = maxRetries - 1")
      case True
      with Inl "1.prems" unf show ?thesis
        by (intro exI [of _ 0]) simp
    next
      case False
      with "1.prems" have lt: "i + 1 < maxRetries" by simp
      let ?t = "t @ [Attempt i, Sleep (1000 * (i + 1))]"
      from "1.IH" [OF "1.prems" Inl False lt]
      obtain m where m: "i + 1 + m < maxRetries"
        "snd (retryLoop operation maxRetries (i + 1) ?t) = ?t @ backoff_from (i + 1) m"
        "\<forall>j<m. isl (operation (i + 1 + j))"
        "\<forall>v. operation (i + 1 + m) = Inr v \<longrightarrow>
             fst (retryLoop operation maxRetries (i + 1) ?t) = Inr (Some v)"
        "\<forall>e. operation (i + 1 + m) = Inl e \<longrightarrow>
             i + 1 + m = maxRetries - 1 \<and> fst (retryLoop operation maxRetries (i + 1) ?t) = Inl e"
        by blast
      have step: "retryLoop operation maxRetries i t = retryLoop operation maxRetries (i + 1) ?t"
        using "1.prems" Inl False unf by simp
      have fails: "\<forall>j<Suc m. isl (operation (i + j))"
      proof (intro allI impI)
        fix j assume "j < Suc m"
        show "isl (operation (i + j))"
        proof (cases j)
          case 0 with Inl show ?thesis by simp
        next
          case (Suc j') with \<open>j < Suc m\<close> m(3) show ?thesis by simp
        qed
      qed
      show ?thesis
        using m step fails by (intro exI [of _ "Suc m"]) simp
    qed
  qed
qed

lemma length_attempts_backoff_from:
  "length (filter is_attempt (backoff_from i m)) = Suc m"
  by (induction m arbitrary: i) simp_all

lemma retryOperation_shape:
  assumes "0 < n"
  shows "\<exists>m<n. snd (retryOperation operation n) = backoff_from 0 m
     \<and> (\<forall>j<m. isl (operation j))
     \<and> (\<forall>v. operation m = Inr v \<longrightarrow> fst (retryOperation operation n) = Inr (Some v))
     \<and> (\<forall>e. operation m = Inl e \<longrightarrow> m = n - 1 \<and> fst (retryOperation operation n) = Inl e)"
  using retryLoop_shape [OF assms, of operation "[]"] by (simp add: retryOperation_def)

lemma retryOperation_all_fail:
  assumes "0 < n" and "all_attempts_fail operation n"
  shows "retryOperation operation n = (Inl (projl (operation (n - 1))), backoff_from 0 (n - 1))"
proof -
  obtain m where m: "m < n" "snd (retryOperation operation n) = backoff_from 0 m"
     "\<forall>e. operation m = Inl e \<longrightarrow> m = n - 1 \<and> fst (retryOperation operation n) = Inl e"
    using retryOperation_shape [OF assms(1), of operation] by blast
  from assms(2) m(1) have "isl (operation m)"
    by (simp add: all_attempts_fail_def list_all_iff)
  then obtain e where e: "operation m = Inl e" by (cases "operation m") simp_all
  with m(3) have "m = n - 1" "fst (retryOperation operation n) = Inl e" by simp_all
  with m(2) e show ?thesis by (simp add: prod_eq_iff)
qed

lemma retryOperation_error_iff:
  assumes "0 < n"
  shows "isl (fst (retryOperation operation n)) \<longleftrightarrow> all_attempts_fail operation n"
proof
  assume "all_attempts_fail operation n"
  from retryOperation_all_fail [OF assms this] show "isl (fst (retryOperation operation n))" by simp
next
  assume err: "isl (fst (retryOperation operation n))"
  obtain m where m: "m < n" "\<forall>j<m. isl (operation j)"
     "\<forall>v. operation m = Inr v \<longrightarrow> fst (retryOperation operation n) = Inr (Some v)"
     "\<forall>e. operation m = Inl e \<longrightarrow> m = n - 1 \<and> fst (retryOperation operation n) = Inl e"
    using retryOperation_shape [OF assms, of operation] by blast
  from err m(3,4) have "m = n - 1 \<and> isl (operation m)" by (cases "operation m") auto
  with m(1,2) have "\<forall>j<n. isl (operation j)"
    by (metis Suc_pred' assms less_Suc_eq)
  then show "all_attempts_fail operation n"
    by (simp add: all_attempts_fail_def list_all_iff)
qed

lemma find_first_index:
  assumes "m < n" and "P m" and "\<forall>j<m. \<not> P j"
  shows "find P [0..<n] = Some m"
proof -
  have "\<exists>i<length [0..<n]. P ([0..<n] ! i) \<and> m = [0..<n] ! i \<and> (\<forall>j<i. \<not> P ([0..<n] ! j))"
    using assms by (intro exI [of _ m]) simp
  then show ?thesis by (simp only: find_Some_iff)
qed

lemma retryOperation_first_success:
  assumes "0 < n"
  shows "fst (retryOperation operation n)
           = (case first_success operation n of
                Some v \<Rightarrow> Inr (Some v)
              | None \<Rightarrow> Inl (projl (operation (n - 1))))"
proof -
  obtain m where m: "m < n" "\<forall>j<m. isl (operation j)"
     "\<forall>v. operation m = Inr v \<longrightarrow> fst (retryOperation operation n) = Inr (Some v)"
     "\<forall>e. operation m = Inl e \<longrightarrow> m = n - 1 \<and> fst (retryOperation operation n) = Inl e"
    using retryOperation_shape [OF assms, of operation] by blast
  show ?thesis
  proof (cases "operation m")
    case (Inr v)
    with m(1,2) have "find (\<lambda>i. \<not> isl (operation i)) [0..<n] = Some m"
      by (intro find_first_index) simp_all
    with Inr m(3) show ?thesis by (simp add: first_success_def)
  next
    case (Inl e)
    with m(4) have last: "m = n - 1" and r: "fst (retryOperation operation n) = Inl e" by simp_all
    have "\<forall>j<n. isl (operation j)"
    proof (intro allI impI)
      fix j assume "j < n"
      then have "j < m \<or> j = m" using last by auto
      with m(2) Inl show "isl (operation j)" by auto
    qed
    then have "find (\<lambda>i. \<not> isl (operation i)) [0..<n] = None"
      by (simp add: find_None_iff)
    with r Inl last show ?thesis by (simp add: first_success_def)
  qed
qed

lemma getTokenBalance_eq:
  "getTokenBalance getAddress toString op a t =
     (case getAddress a of Inl e \<Rightarrow> ''0''
      | Inr fa \<Rightarrow> (case getAddress t of Inl e \<Rightarrow> ''0''
          | Inr ft \<Rightarrow> (case first_success (op fa ft) 3 of Some b \<Rightarrow> toString b | None \<Rightarrow> ''0'')))"
  by (simp add: getTokenBalance_def retryOperation_first_success defaultMaxRetries_def
        split: sum.splits option.splits)

lemma getValidatorData_eq:
  "getValidatorData getAddress bigintToString percentToFixed2 readValidatorInfo readDelegators va =
     (case getAddress va of Inl e \<Rightarrow> fallbackValidatorData
      | Inr fa \<Rightarrow>
          (case (first_success (readValidatorInfo fa) 3, first_success (readDelegators fa) 3) of
             (Some validatorInfo, Some delegators) \<Rightarrow>
               \<lparr>totalStake = bigintToString (vi_totalStake validatorInfo),
                commission = percentToFixed2 (vi_commission validatorInfo),
                uptime = percentToFixed2 (vi_uptime validatorInfo),
                lastSignedBlock = bigintToString (vi_lastSignedBlock validatorInfo),
                apr = percentToFixed2 (vi_apr validatorInfo),
                totalDelegators = length delegators\<rparr>
           | _ \<Rightarrow> fallbackValidatorData))"
  by (simp add: getValidatorData_def retryOperation_first_success defaultMaxRetries_def
        split: sum.splits option.splits)


text \<open>
  C7. The read helpers retry a bounded number of times with linear backoff and then fall
  back to a default. With the default \<open>maxRetries = 3\<close>, \<open>retryOperation\<close> calls the
  operation at most three times; its trace is \<open>Attempt 0\<close>, then for every further attempt
  \<open>i + 1\<close> a delay of \<open>1000 * (i + 1)\<close> ms followed by the attempt; it returns the value
  of the first attempt that succeeds, and it ends in an error exactly when all three
  attempts failed, the error being the one of the last attempt. \<open>getTokenBalance\<close>
  returns the balance of the first of the three attempts that succeeds, as a string,
  and \<open>'0'\<close> when all three fail or an address is ill-formed. \<open>getValidatorData\<close>
  returns the object built from the first successful attempt of each of its two reads,
  and its fallback object when either read fails three times or the address is
  ill-formed.
\<close>

theorem read_helpers_retry_then_default:
  fixes operation :: "nat \<Rightarrow> js_error + 'a"
    and getTokenBalance_op :: "string \<Rightarrow> string \<Rightarrow> nat \<Rightarrow> js_error + 'b"
    and readDelegators :: "string \<Rightarrow> nat \<Rightarrow> js_error + 'd list"
  shows
  "length (filter is_attempt (snd (retryOperation operation defaultMaxRetries))) \<le> 3
   \<and> (\<exists>m<3. snd (retryOperation operation defaultMaxRetries) = backoff_from 0 m)
   \<and> (isl (fst (retryOperation operation defaultMaxRetries))
        \<longleftrightarrow> all_attempts_fail operation 3)
   \<and> (all_attempts_fail operation 3 \<longrightarrow>
        retryOperation operation defaultMaxRetries
          = (Inl (projl (operation 2)),
             [Attempt 0, Sleep 1000, Attempt 1, Sleep 2000, Attempt 2]))
   \<and> (getAddress walletAddress = Inr fa \<and> getAddress tokenAddress = Inr ft
        \<and> all_attempts_fail (getTokenBalance_op fa ft) 3 \<longrightarrow>
        getTokenBalance getAddress toString getTokenBalance_op walletAddress tokenAddress = ''0'')
   \<and> (getAddress validatorAddress = Inr va
        \<and> (all_attempts_fail (readValidatorInfo va) 3 \<or> all_attempts_fail (readDelegators va) 3) \<longrightarrow>
        getValidatorData getAddress bigintToString percentToFixed2 readValidatorInfo readDelegators
          validatorAddress = fallbackValidatorData)
   \<and> fst (retryOperation operation defaultMaxRetries)
       = (case first_success operation 3 of
            Some v \<Rightarrow> Inr (Some v)
          | None \<Rightarrow> Inl (projl (operation 2)))
   \<and> getTokenBalance getAddress toString getTokenBalance_op walletAddress tokenAddress
       = (case getAddress walletAddress of
            Inl e \<Rightarrow> ''0''
          | Inr formattedAddress \<Rightarrow>
              (case getAddress tokenAddress of
                 Inl e \<Rightarrow> ''0''
               | Inr formattedTokenAddress \<Rightarrow>
                   (case first_success (getTokenBalance_op formattedAddress formattedTokenAddress) 3 of
                      Some balance \<Rightarrow> toString balance
                    | None \<Rightarrow> ''0'')))
   \<and> getValidatorData getAddress bigintToString percentToFixed2 readValidatorInfo readDelegators
         validatorAddress
       = (case getAddress validatorAddress of
            Inl e \<Rightarrow> fallbackValidatorData
          | Inr formattedAddress \<Rightarrow>
              (case (first_success (readValidatorInfo formattedAddress) 3,
                     first_success (readDelegators formattedAddress) 3) of
                 (Some validatorInfo, Some delegators) \<Rightarrow>
                   \<lparr>totalStake = bigintToString (vi_totalStake validatorInfo),
                    commission = percentToFixed2 (vi_commission validatorInfo),
                    uptime = percentToFixed2 (vi_uptime validatorInfo),
                    lastSignedBlock = bigintToString (vi_lastSignedBlock validatorInfo),
                    apr = percentToFixed2 (vi_apr validatorInfo),
                    totalDelegators = length delegators\<rparr>
               | _ \<Rightarrow> fallbackValidatorData))"
proof -
  have pos: "0 < defaultMaxRetries" and three: "defaultMaxRetries = 3"
    by (simp_all add: defaultMaxRetries_def)
  obtain m where m: "m < 3" "snd (retryOperation operation defaultMaxRetries) = backoff_from 0 m"
    using retryOperation_shape [OF pos, of operation] three by auto
  have c1: "length (filter is_attempt (snd (retryOperation operation defaultMaxRetries))) \<le> 3"
    using m by (simp add: length_attempts_backoff_from)
  have c2: "\<exists>m<3. snd (retryOperation operation defaultMaxRetries) = backoff_from 0 m"
    using m by blast
  have c3: "isl (fst (retryOperation operation defaultMaxRetries)) \<longleftrightarrow> all_attempts_fail operation 3"
    using retryOperation_error_iff [OF pos, of operation] three by simp
  have c4: "all_attempts_fail operation 3 \<longrightarrow>
        retryOperation operation defaultMaxRetries
          = (Inl (projl (operation 2)), [Attempt 0, Sleep 1000, Attempt 1, Sleep 2000, Attempt 2])"
  proof
    assume "all_attempts_fail operation 3"
    then have "all_attempts_fail operation defaultMaxRetries" by (simp add: three)
    from retryOperation_all_fail [OF pos this] show "retryOperation operation defaultMaxRetries
          = (Inl (projl (operation 2)), [Attempt 0, Sleep 1000, Attempt 1, Sleep 2000, Attempt 2])"
      by (simp add: three numeral_2_eq_2)
  qed
  have c5: "getAddress walletAddress = Inr fa \<and> getAddress tokenAddress = Inr ft
        \<and> all_attempts_fail (getTokenBalance_op fa ft) 3 \<longrightarrow>
        getTokenBalance getAddress toString getTokenBalance_op walletAddress tokenAddress = ''0''"
  proof
    assume h: "getAddress walletAddress = Inr fa \<and> getAddress tokenAddress = Inr ft
        \<and> all_attempts_fail (getTokenBalance_op fa ft) 3"
    then have "isl (fst (retryOperation (getTokenBalance_op fa ft) defaultMaxRetries))"
      using retryOperation_error_iff [OF pos, of "getTokenBalance_op fa ft"] three by simp
    with h show "getTokenBalance getAddress toString getTokenBalance_op walletAddress tokenAddress = ''0''"
      by (auto simp: getTokenBalance_def split: sum.splits option.splits)
  qed
  have c6: "getAddress validatorAddress = Inr va
        \<and> (all_attempts_fail (readValidatorInfo va) 3 \<or> all_attempts_fail (readDelegators va) 3) \<longrightarrow>
        getValidatorData getAddress bigintToString percentToFixed2 readValidatorInfo readDelegators
          validatorAddress = fallbackValidatorData"
  proof
    assume h: "getAddress validatorAddress = Inr va
        \<and> (all_attempts_fail (readValidatorInfo va) 3 \<or> all_attempts_fail (readDelegators va) 3)"
    then have "isl (fst (retryOperation (readValidatorInfo va) defaultMaxRetries))
             \<or> isl (fst (retryOperation (readDelegators va) defaultMaxRetries))"
      using retryOperation_error_iff [OF pos, of "readValidatorInfo va"]
            retryOperation_error_iff [OF pos, of "readDelegators va"] three by simp
    with h show "getValidatorData getAddress bigintToString percentToFixed2 readValidatorInfo
          readDelegators validatorAddress = fallbackValidatorData"
      by (auto simp: getValidatorData_def split: sum.splits option.splits)
  qed
  have c7: "fst (retryOperation operation defaultMaxRetries)
       = (case first_success operation 3 of
            Some v \<Rightarrow> Inr (Some v)
          | None \<Rightarrow> Inl (projl (operation 2)))"
    using retryOperation_first_success [of 3 operation]
    by (simp add: three split: option.splits)
  note c8 = getTokenBalance_eq [of getAddress toString getTokenBalance_op walletAddress tokenAddress]
  note c9 = getValidatorData_eq [of getAddress bigintToString percentToFixed2 readValidatorInfo
                                    readDelegators validatorAddress]
  from c1 c2 c3 c4 c5 c6 c7 c8 c9 show ?thesis by blast
qed

theorem read_helpers_retry_then_default_witness:
  "all_attempts_fail (always_timeout :: nat \<Rightarrow> js_error + int) 3
   \<and> retryOperation (always_timeout :: nat \<Rightarrow> js_error + int) defaultMaxRetries
       = (Inl (Error ''timeout !!''), [Attempt 0, Sleep 1000, Attempt 1, Sleep 2000, Attempt 2])
   \<and> getTokenBalance Inr (\<lambda>b :: int. ''7'') (\<lambda>a t. always_timeout) ''0xaa'' ''0xbb'' = ''0''
   \<and> getValidatorData Inr (\<lambda>n. ''1'') (\<lambda>n. ''1.00'') (\<lambda>a. always_timeout)
        (\<lambda>a. always_timeout :: nat \<Rightarrow> js_error + int list) ''0xcc'' = fallbackValidatorData
   \<and> retryOperation (fails_once (7 :: int)) defaultMaxRetries
       = (Inr (Some 7), [Attempt 0, Sleep 1000, Attempt 1])
   \<and> getTokenBalance Inr digits_of_int (\<lambda>a t. fails_once 7) ''0xaa'' ''0xbb'' = ''7''
   \<and> getValidatorData Inr digits_of_int digits_of_int (\<lambda>a. fails_once sample_validator_info)
        (\<lambda>a. fails_once [1, 2 :: int]) ''0xcc''
       = \<lparr>totalStake = ''4000'', commission = ''1000'', uptime = ''9998'',
          lastSignedBlock = ''1234567'', apr = ''1250'', totalDelegators = 2\<rparr>"
proof -
  have f: "\<And>op :: nat \<Rightarrow> js_error + 'x. op = always_timeout \<Longrightarrow> all_attempts_fail op 3"
    by (simp add: all_attempts_fail_def always_timeout_def list_all_iff)
  have p: "projl (always_timeout 2 :: js_error + int) = Error ''timeout !!''"
    by (simp add: always_timeout_def numeral_2_eq_2)
  have fail: "all_attempts_fail (always_timeout :: nat \<Rightarrow> js_error + int) 3
   \<and> retryOperation (always_timeout :: nat \<Rightarrow> js_error + int) defaultMaxRetries
       = (Inl (Error ''timeout !!''), [Attempt 0, Sleep 1000, Attempt 1, Sleep 2000, Attempt 2])
   \<and> getTokenBalance Inr (\<lambda>b :: int. ''7'') (\<lambda>a t. always_timeout) ''0xaa'' ''0xbb'' = ''0''
   \<and> getValidatorData Inr (\<lambda>n. ''1'') (\<lambda>n. ''1.00'') (\<lambda>a. always_timeout)
        (\<lambda>a. always_timeout :: nat \<Rightarrow> js_error + int list) ''0xcc'' = fallbackValidatorData"
    using read_helpers_retry_then_default
      [of "always_timeout :: nat \<Rightarrow> js_error + int" Inr "''0xaa''" "''0xaa''" "''0xbb''" "''0xbb''"
          "\<lambda>a t. always_timeout" "\<lambda>b :: int. ''7''" "''0xcc''" "''0xcc''"
          "\<lambda>a. always_timeout" "\<lambda>a. always_timeout :: nat \<Rightarrow> js_error + int list"
          "\<lambda>n. ''1''" "\<lambda>n. ''1.00''"]
      f [of "always_timeout :: nat \<Rightarrow> js_error + int"]
      f [of "always_timeout :: nat \<Rightarrow> js_error + int list"]
      f [of "always_timeout :: nat \<Rightarrow> js_error + ValidatorInfo"] p
    by simp
  have s1: "first_success (fails_once (7 :: int)) 3 = Some 7"
    and s2: "first_success (fails_once sample_validator_info) 3 = Some sample_validator_info"
    and s3: "first_success (fails_once [1, 2 :: int]) 3 = Some [1, 2]"
    by (simp_all add: first_success_def fails_once_def upt_conv_Cons)
  have d: "digits_of_int 7 = ''7''" "digits_of_int 4000 = ''4000''" "digits_of_int 1000 = ''1000''"
    "digits_of_int 9998 = ''9998''" "digits_of_int 1234567 = ''1234567''"
    "digits_of_int 1250 = ''1250''"
    by code_simp+
  have t: "snd (retryOperation (fails_once (7 :: int)) defaultMaxRetries)
             = [Attempt 0, Sleep 1000, Attempt 1]"
    by code_simp
  have once: "retryOperation (fails_once (7 :: int)) defaultMaxRetries
       = (Inr (Some 7), [Attempt 0, Sleep 1000, Attempt 1])
   \<and> getTokenBalance Inr digits_of_int (\<lambda>a t. fails_once 7) ''0xaa'' ''0xbb'' = ''7''
   \<and> getValidatorData Inr digits_of_int digits_of_int (\<lambda>a. fails_once sample_validator_info)
        (\<lambda>a. fails_once [1, 2 :: int]) ''0xcc''
       = \<lparr>totalStake = ''4000'', commission = ''1000'', uptime = ''9998'',
          lastSignedBlock = ''1234567'', apr = ''1250'', totalDelegators = 2\<rparr>"
    using read_helpers_retry_then_default
      [of "fails_once (7 :: int)" Inr "''0xaa''" "''0xaa''" "''0xbb''" "''0xbb''"
          "\<lambda>a t. fails_once (7 :: int)" digits_of_int "''0xcc''" "''0xcc''"
          "\<lambda>a. fails_once sample_validator_info" "\<lambda>a. fails_once [1, 2 :: int]"
          digits_of_int digits_of_int]
      s1 s2 s3 d t
    by (simp add: prod_eq_iff sample_validator_info_def)
  from fail once show ?thesis by simp
qed

subsection \<open>The contract module and the staking dashboard\<close>

lemma getStakingStats_cases:
  "getStakingStats c =
     (case getContract c of Inl e \<Rightarrow> Resolves defaultStakingStats
      | Inr _ \<Rightarrow>
        (case (await (read_totalSupply c), await (read_rewardRate c), await (read_paused c)) of
           (Inr t, Inr r, Inr p) \<Rightarrow>
             Resolves \<lparr>totalStaked = t, rewardRate = r, rewardForDuration = r * 604800, isPaused = p\<rparr>
         | _ \<Rightarrow> Resolves defaultStakingStats))"
  by (cases "read_totalSupply c" rule: await.cases; cases "read_rewardRate c" rule: await.cases;
      cases "read_paused c" rule: await.cases)
     (simp_all add: getStakingStats_def try_catch_def promise_all3_def split: sum.splits)

lemma getStakingStats_safeRead_eq:
  "getStakingStats_safeRead c =
     Resolves \<lparr>totalStaked = or_default (await (read_totalSupply c)) 0,
               rewardRate = or_default (await (read_rewardRate c)) 0,
               rewardForDuration = or_default (await (read_rewardRate c)) 0 * 604800,
               isPaused = or_default (await (read_paused c)) False\<rparr>"
  by (cases "read_totalSupply c" rule: await.cases; cases "read_rewardRate c" rule: await.cases;
      cases "read_paused c" rule: await.cases)
     (simp_all add: getStakingStats_safeRead_def safeRead_def try_catch_def or_default_def)

text \<open>
  C8, as amended. \<open>getStakingStats\<close> never rejects, in either revision. In the revision
  with one \<open>try\<close> around all reads, an error in any read (or in \<open>getContract\<close>) makes it
  resolve with the four defaults: total staked 0, reward rate 0, reward for duration 0,
  not paused. In the revision with \<open>safeRead\<close>, every read that fails is replaced by its
  own default and the reads that succeed keep their values, so that all four defaults
  result when all three reads fail.
\<close>

theorem getStakingStats_resolves_with_defaults:
  "(\<exists>s. getStakingStats c = Resolves s)
   \<and> (\<exists>s. getStakingStats_safeRead c = Resolves s)
   \<and> (isl (getContract c) \<or> isl (await (read_totalSupply c)) \<or> isl (await (read_rewardRate c))
        \<or> isl (await (read_paused c))
        \<longrightarrow> getStakingStats c = Resolves defaultStakingStats)
   \<and> (isl (await (read_totalSupply c)) \<and> isl (await (read_rewardRate c))
        \<and> isl (await (read_paused c))
        \<longrightarrow> getStakingStats_safeRead c = Resolves defaultStakingStats)
   \<and> getStakingStats_safeRead c =
       Resolves \<lparr>totalStaked = or_default (await (read_totalSupply c)) 0,
                 rewardRate = or_default (await (read_rewardRate c)) 0,
                 rewardForDuration = or_default (await (read_rewardRate c)) 0 * 604800,
                 isPaused = or_default (await (read_paused c)) False\<rparr>"
proof -
  have a: "\<exists>s. getStakingStats c = Resolves s"
    by (simp add: getStakingStats_cases split: sum.splits prod.splits)
  have b: "\<exists>s. getStakingStats_safeRead c = Resolves s"
    by (simp add: getStakingStats_safeRead_eq)
  have d: "isl (getContract c) \<or> isl (await (read_totalSupply c)) \<or> isl (await (read_rewardRate c))
        \<or> isl (await (read_paused c))
        \<longrightarrow> getStakingStats c = Resolves defaultStakingStats"
    by (auto simp: getStakingStats_cases split: sum.splits prod.splits)
  have e: "isl (await (read_totalSupply c)) \<and> isl (await (read_rewardRate c))
        \<and> isl (await (read_paused c))
        \<longrightarrow> getStakingStats_safeRead c = Resolves defaultStakingStats"
    by (auto simp: getStakingStats_safeRead_eq or_default_def defaultStakingStats_def
          split: sum.splits)
  from a b d e getStakingStats_safeRead_eq [of c] show ?thesis by blast
qed

text \<open>
  C8 as stated fails for the revision with \<open>safeRead\<close>: when only the read of
  \<open>totalSupply\<close> fails, the reward rate and the reward for the duration are those of the
  contract, not 0.
\<close>

theorem safeRead_partial_failure_counterexample:
  "isl (await (read_totalSupply one_read_fails_client))
   \<and> getStakingStats_safeRead one_read_fails_client
       = Resolves \<lparr>totalStaked = 0, rewardRate = 10 ^ 18,
                   rewardForDuration = 604800 * 10 ^ 18, isPaused = False\<rparr>
   \<and> getStakingStats_safeRead one_read_fails_client \<noteq> Resolves defaultStakingStats"
  by (simp add: getStakingStats_safeRead_eq one_read_fails_client_def healthy_client_def
        or_default_def defaultStakingStats_def)

theorem getStakingStats_resolves_with_defaults_witness:
  "isl (await (read_totalSupply rpc_down_client))
   \<and> isl (await (read_rewardRate rpc_down_client))
   \<and> isl (await (read_paused rpc_down_client))
   \<and> getStakingStats rpc_down_client = Resolves defaultStakingStats
   \<and> getStakingStats_safeRead rpc_down_client = Resolves defaultStakingStats"
proof -
  have h: "isl (await (read_totalSupply rpc_down_client))"
     "isl (await (read_rewardRate rpc_down_client))"
     "isl (await (read_paused rpc_down_client))"
    by (simp_all add: rpc_down_client_def healthy_client_def)
  with getStakingStats_resolves_with_defaults [of rpc_down_client] show ?thesis by blast
qed

text \<open>
  C9. \<open>checkRole\<close> is meant never to throw, and to resolve to \<open>false\<close> when the read of
  \<open>hasRole\<close> fails. In \<open>StakingContract.ts\<close> it does not: the promise of the read is
  returned without \<open>await\<close>, so its rejection is the rejection of \<open>checkRole\<close> and the
  \<open>catch\<close> block is passed by. The revision with \<open>safeRead\<close> resolves to \<open>false\<close> on
  the same client.
\<close>

theorem checkRole_rejects_when_read_rejects:
  "read_hasRole rpc_down_client (ROLES ADMIN) ''0xaa'' = Inr (Rejects rpc_error)
   \<and> checkRole rpc_down_client ''0xaa'' ADMIN = Rejects rpc_error
   \<and> checkRole_safeRead rpc_down_client ''0xaa'' ADMIN = Resolves False"
  by (simp add: checkRole_def checkRole_safeRead_def safeRead_def try_catch_def
        rpc_down_client_def healthy_client_def)

lemma checkRole_eq:
  "checkRole c a r =
     (case getContract c of Inl e \<Rightarrow> Resolves False
      | Inr _ \<Rightarrow> (case read_hasRole c (ROLES r) a of Inl e \<Rightarrow> Resolves False | Inr p \<Rightarrow> p))"
  by (simp add: checkRole_def try_catch_def split: sum.splits)

lemma aprOf_formula:
  "d \<noteq> 0 \<Longrightarrow> 0 < t \<Longrightarrow> aprOf (Some d) (Some t) = of_int d * 365 / of_int t * 100"
  by (simp add: aprOf_def falsy_bigint_def etherNumber_def)

lemma aprOf_missing: "aprOf None t = 0" "aprOf d None = 0" "aprOf d (Some 0) = 0"
  by (simp_all add: aprOf_def falsy_bigint_def)

lemma calculateAPR_fetched_zero: "calculateAPR (Some s) = 0"
  by (simp add: calculateAPR_def opt_prop_def bigint_prop_def aprOf_missing)

text \<open>
  C2. The APR that the dashboard renders is meant to be
  \<open>dailyRewards * 365 / totalStaked * 100\<close>, and the body of \<open>calculateAPR\<close> computes
  that from the two properties it reads (\<open>aprOf_formula\<close>, in exact arithmetic). But it
  reads the property \<open>dailyRewards\<close> of the fetched snapshot, which \<open>getStakingStats\<close>
  never sets: on a pool with 1000 tokens staked and a reward rate of one token per second
  the snapshot that \<open>fetchData\<close> stores gives an APR of 0.
\<close>

theorem calculateAPR_of_fetched_stats_is_zero:
  "getStakingStats healthy_client
     = Resolves \<lparr>totalStaked = 1000 * 10 ^ 18, rewardRate = 10 ^ 18,
                 rewardForDuration = 604800 * 10 ^ 18, isPaused = False\<rparr>
   \<and> stakingStats (fst (fetchData healthy_client fresh_dashboard))
       = Some \<lparr>totalStaked = 1000 * 10 ^ 18, rewardRate = 10 ^ 18,
                rewardForDuration = 604800 * 10 ^ 18, isPaused = False\<rparr>
   \<and> calculateAPR (stakingStats (fst (fetchData healthy_client fresh_dashboard))) = 0"
proof -
  have g: "getStakingStats healthy_client
     = Resolves \<lparr>totalStaked = 1000 * 10 ^ 18, rewardRate = 10 ^ 18,
                 rewardForDuration = 604800 * 10 ^ 18, isPaused = False\<rparr>"
    by (simp add: getStakingStats_cases healthy_client_def)
  have u: "\<exists>u. getUserStats healthy_client a = Resolves u" for a
    by (simp add: getUserStats_def try_catch_def promise_all4_def healthy_client_def)
  then obtain u where u: "getUserStats healthy_client ''0x00000000000000000000000000000000000000aa'' = Resolves u"
    by blast
  have f: "stakingStats (fst (fetchData healthy_client fresh_dashboard))
       = Some \<lparr>totalStaked = 1000 * 10 ^ 18, rewardRate = 10 ^ 18,
                rewardForDuration = 604800 * 10 ^ 18, isPaused = False\<rparr>"
    using g u by (simp add: fetchData_def fresh_dashboard_def Let_def)
       (simp add: healthy_client_def)
  from g f show ?thesis by (simp add: calculateAPR_fetched_zero)
qed

text \<open>
  C5. When no user snapshot has been fetched or the earned rewards in it are zero or
  less, \<open>handleClaim\<close> returns at once: the state is unchanged and no call is made, so
  no \<open>getReward\<close> transaction is submitted; and the Claim button is rendered disabled.
  This holds in \<open>StakingDashboard.tsx\<close> and in the revision of part_007.
\<close>

theorem handleClaim_noop_without_rewards:
  assumes "userStats st = None \<or> (\<exists>u. userStats st = Some u \<and> earnedRewards u \<le> 0)"
  shows "handleClaim c st = (st, []) \<and> claimDisabled st
       \<and> handleClaim_part007 c st = (st, []) \<and> claimDisabled_part007 st"
  using assms
  by (auto simp: handleClaim_def claimDisabled_def noRewards_def handleClaim_part007_def
        claimDisabled_part007_def noRewards_part007_def)

theorem handleClaim_noop_without_rewards_witness:
  "(\<exists>u. userStats zero_rewards_dashboard = Some u \<and> earnedRewards u \<le> 0)
   \<and> handleClaim healthy_client zero_rewards_dashboard = (zero_rewards_dashboard, [])
   \<and> claimDisabled zero_rewards_dashboard
   \<and> handleClaim_part007 healthy_client zero_rewards_dashboard = (zero_rewards_dashboard, [])
   \<and> claimDisabled_part007 zero_rewards_dashboard"
proof -
  have h: "\<exists>u. userStats zero_rewards_dashboard = Some u \<and> earnedRewards u \<le> 0"
    by (simp add: zero_rewards_dashboard_def defaultUserStats_def)
  with handleClaim_noop_without_rewards [of zero_rewards_dashboard healthy_client]
  show ?thesis by blast
qed

subsection \<open>Amounts in token units and in base units\<close>

lemma foldl_digits_acc:
  "foldl (\<lambda>a c. 10 * a + digit_val c) acc ds
     = acc * 10 ^ length ds + foldl (\<lambda>a c. 10 * a + digit_val c) 0 ds"
proof (induction ds arbitrary: acc)
  case Nil
  show ?case by simp
next
  case (Cons d ds)
  have "foldl (\<lambda>a c. 10 * a + digit_val c) acc (d # ds)
      = foldl (\<lambda>a c. 10 * a + digit_val c) (10 * acc + digit_val d) ds" by simp
  also have "\<dots> = (10 * acc + digit_val d) * 10 ^ length ds
                   + foldl (\<lambda>a c. 10 * a + digit_val c) 0 ds"
    by (rule Cons.IH)
  also have "foldl (\<lambda>a c. 10 * a + digit_val c) 0 (d # ds)
      = digit_val d * 10 ^ length ds + foldl (\<lambda>a c. 10 * a + digit_val c) 0 ds"
    using Cons.IH [of "digit_val d"] by simp
  ultimately show ?case by (simp add: algebra_simps)
qed

lemma int_of_digits_Nil [simp]: "int_of_digits [] = 0"
  by (simp add: int_of_digits_def)

lemma int_of_digits_append:
  "int_of_digits (a @ b) = int_of_digits a * 10 ^ length b + int_of_digits b"
  unfolding int_of_digits_def foldl_append
  by (rule foldl_digits_acc)

lemma int_of_digits_single: "int_of_digits [c] = digit_val c"
  by (simp add: int_of_digits_def)

lemma int_of_digits_zeros: "int_of_digits (replicate k CHR ''0'') = 0"
proof (induction k)
  case 0 show ?case by simp
next
  case (Suc k)
  have "replicate (Suc k) CHR ''0'' = replicate k CHR ''0'' @ [CHR ''0'']"
    by (simp add: replicate_append_same)
  then show ?case
    using Suc by (simp add: int_of_digits_append int_of_digits_single digit_val_def)
qed

lemma digit_char_val: "0 \<le> d \<Longrightarrow> d < 10 \<Longrightarrow> digit_val (digit_char d) = d"
  by (simp add: digit_val_def digit_char_def of_char_of take_bit_eq_mod)

lemma digit_char_is_digit: "0 \<le> d \<Longrightarrow> d < 10 \<Longrightarrow> is_digit (digit_char d)"
  by (simp add: is_digit_def digit_char_def of_char_of take_bit_eq_mod)

lemma is_digit_not_point: "is_digit c \<Longrightarrow> c \<noteq> CHR ''.''"
  by (auto simp: is_digit_def)

lemma is_digit_zero: "is_digit CHR ''0''"
  by (simp add: is_digit_def)

lemma digits_of_int_props:
  "0 \<le> n \<Longrightarrow> int_of_digits (digits_of_int n) = n \<and> list_all is_digit (digits_of_int n)
     \<and> digits_of_int n \<noteq> []"
proof (induction n rule: digits_of_int.induct)
  case (1 n)
  show ?case
  proof (cases "n < 10")
    case True
    with "1.prems" show ?thesis
      by (simp add: digits_of_int.simps [of n] int_of_digits_single digit_char_val
            digit_char_is_digit)
  next
    case False
    with "1.prems" have q: "0 \<le> n div 10" by simp
    have m: "0 \<le> n mod 10" "n mod 10 < 10" by simp_all
    from "1.IH" [OF False q] False m show ?thesis
      by (simp add: digits_of_int.simps [of n] int_of_digits_append int_of_digits_single
            digit_char_val digit_char_is_digit)
  qed
qed

lemma int_of_digits_nonneg: "list_all is_digit ds \<Longrightarrow> 0 \<le> int_of_digits ds"
proof (induction ds rule: rev_induct)
  case Nil show ?case by simp
next
  case (snoc d ds)
  then have "0 \<le> int_of_digits ds" "is_digit d" by simp_all
  then show ?case
    by (simp add: int_of_digits_append int_of_digits_single digit_val_def is_digit_def)
qed

lemma strip_trailing_zeros_decomp:
  "\<exists>j. s = strip_trailing_zeros s @ replicate j CHR ''0''"
proof -
  let ?P = "\<lambda>c. c = CHR ''0''"
  have "rev s = takeWhile ?P (rev s) @ dropWhile ?P (rev s)" by simp
  then have "s = rev (dropWhile ?P (rev s)) @ rev (takeWhile ?P (rev s))"
    by (metis rev_append rev_rev_ident)
  moreover have "takeWhile ?P (rev s) = replicate (length (takeWhile ?P (rev s))) CHR ''0''"
    by (metis (full_types) replicate_length_same set_takeWhileD)
  ultimately have "s = strip_trailing_zeros s @ replicate (length (takeWhile ?P (rev s))) CHR ''0''"
    by (metis rev_replicate strip_trailing_zeros_def)
  then show ?thesis ..
qed

lemma strip_trailing_zeros_digits:
  "list_all is_digit s \<Longrightarrow> list_all is_digit (strip_trailing_zeros s)"
  by (metis list_all_append strip_trailing_zeros_decomp)

lemma parts_no_point:
  assumes "list_all is_digit a"
  shows "integer_part a = a \<and> fraction_part a = []"
proof -
  from assms have np: "\<forall>c\<in>set a. c \<noteq> CHR ''.''"
    by (auto simp: list_all_iff dest: is_digit_not_point)
  then have tw: "takeWhile (\<lambda>c. c \<noteq> CHR ''.'') a = a"
    and dw: "dropWhile (\<lambda>c. c \<noteq> CHR ''.'') a = []"
    by (simp_all add: takeWhile_eq_all_conv dropWhile_eq_Nil_conv)
  show ?thesis unfolding integer_part_def fraction_part_def tw dw by simp
qed

lemma parts_with_point:
  assumes "list_all is_digit a"
  shows "integer_part (a @ CHR ''.'' # f) = a \<and> fraction_part (a @ CHR ''.'' # f) = f"
proof -
  from assms have np: "\<And>c. c \<in> set a \<Longrightarrow> c \<noteq> CHR ''.''"
    by (auto simp: list_all_iff dest: is_digit_not_point)
  then show ?thesis by (simp add: integer_part_def fraction_part_def)
qed

lemma frac_value_scale:
  fixes v :: int
  assumes "k \<le> 18"
  shows "(of_int v :: rat) / 10 ^ k = of_int (v * 10 ^ (18 - k)) / 10 ^ 18"
proof -
  have e: "(10::rat) ^ 18 = 10 ^ k * 10 ^ (18 - k)"
    using assms by (simp flip: power_add)
  have "(of_int (v * 10 ^ (18 - k)) :: rat) / 10 ^ 18
          = (of_int v * 10 ^ (18 - k)) / (10 ^ k * 10 ^ (18 - k))"
    by (subst e) simp
  also have "\<dots> = of_int v / 10 ^ k" by simp
  finally show ?thesis by simp
qed

lemma parseEther_value:
  assumes "accepted_amount s"
  shows "\<exists>n. parseEther s = Some n \<and> 0 \<le> n \<and> decimal_value s = of_int n / 10 ^ 18"
proof -
  let ?i = "integer_part s" and ?f = "fraction_part s"
  from assms have d: "list_all is_digit ?i" "list_all is_digit ?f" and l: "length ?f \<le> 18"
    by (simp_all add: accepted_amount_def)
  let ?n = "int_of_digits (?i @ padEnd 18 ?f)"
  have len: "length (padEnd 18 ?f) = 18" using l by (simp add: padEnd_def)
  have pf: "int_of_digits (padEnd 18 ?f) = int_of_digits ?f * 10 ^ (18 - length ?f)"
    by (simp add: padEnd_def int_of_digits_append int_of_digits_zeros)
  have n: "?n = int_of_digits ?i * 10 ^ 18 + int_of_digits ?f * 10 ^ (18 - length ?f)"
    by (simp add: int_of_digits_append len pf)
  have nn: "0 \<le> ?n"
    unfolding n using int_of_digits_nonneg [OF d(1)] int_of_digits_nonneg [OF d(2)] by simp
  have "decimal_value s = of_int (int_of_digits ?i)
           + of_int (int_of_digits ?f * 10 ^ (18 - length ?f)) / 10 ^ 18"
    unfolding decimal_value_def using frac_value_scale [OF l] by simp
  also have "\<dots> = of_int ?n / 10 ^ 18"
    unfolding n by (simp add: field_simps)
  finally have "decimal_value s = of_int ?n / 10 ^ 18" .
  with assms nn show ?thesis by (simp add: parseEther_def)
qed

lemma formatEther_shape:
  assumes "0 \<le> n"
  shows "\<exists>i f j. formatEther n = i @ (if f = [] then [] else CHR ''.'' # f)
           \<and> list_all is_digit i \<and> list_all is_digit f \<and> length f + j = 18
           \<and> n = int_of_digits i * 10 ^ 18 + int_of_digits f * 10 ^ j"
proof -
  let ?d = "padStart 18 (digits_of_int n)"
  let ?k = "length ?d - 18"
  let ?i = "take ?k ?d" and ?fz = "drop ?k ?d"
  let ?f = "strip_trailing_zeros ?fz"
  from digits_of_int_props [OF assms]
  have dn: "int_of_digits (digits_of_int n) = n" "list_all is_digit (digits_of_int n)" by simp_all
  have dd: "list_all is_digit ?d"
    using dn(2) by (auto simp: padStart_def list_all_iff is_digit_zero)
  have dv: "int_of_digits ?d = n"
    using dn(1) by (simp add: padStart_def int_of_digits_append int_of_digits_zeros)
  have ge: "18 \<le> length ?d" by (simp add: padStart_def)
  then have lfz: "length ?fz = 18" by simp
  have "int_of_digits (?i @ ?fz) = int_of_digits ?i * 10 ^ 18 + int_of_digits ?fz"
    unfolding int_of_digits_append lfz ..
  then have split: "n = int_of_digits ?i * 10 ^ 18 + int_of_digits ?fz"
    using dv by simp
  obtain j where j: "?fz = ?f @ replicate j CHR ''0''"
    using strip_trailing_zeros_decomp [of ?fz] by blast
  then have "length ?fz = length ?f + j" by (metis length_append length_replicate)
  with lfz have lj: "length ?f + j = 18" by simp
  have "int_of_digits ?fz = int_of_digits (?f @ replicate j CHR ''0'')" using j by simp
  then have fzv: "int_of_digits ?fz = int_of_digits ?f * 10 ^ j"
    by (simp add: int_of_digits_append int_of_digits_zeros)
  have di: "list_all is_digit ?i" and dfz: "list_all is_digit ?fz"
    using dd by (auto simp: list_all_iff dest: in_set_takeD in_set_dropD)
  have df: "list_all is_digit ?f" using dfz by (rule strip_trailing_zeros_digits)
  let ?i' = "if ?i = [] then ''0'' else ?i"
  have di': "list_all is_digit ?i'" using di by (simp add: is_digit_zero)
  have vi': "int_of_digits ?i' = int_of_digits ?i"
    by (simp add: int_of_digits_single digit_val_def)
  have fe: "formatEther n = ?i' @ (if ?f = [] then [] else CHR ''.'' # ?f)"
    using assms by (simp add: formatEther_def Let_def)
  from fe di' df lj split fzv vi' show ?thesis by metis
qed

lemma formatEther_value:
  assumes "0 \<le> n"
  shows "accepted_amount (formatEther n) \<and> decimal_value (formatEther n) = of_int n / 10 ^ 18
       \<and> parseEther (formatEther n) = Some n"
proof -
  obtain i f j where s: "formatEther n = i @ (if f = [] then [] else CHR ''.'' # f)"
      and d: "list_all is_digit i" "list_all is_digit f" and l: "length f + j = 18"
      and n: "n = int_of_digits i * 10 ^ 18 + int_of_digits f * 10 ^ j"
    using formatEther_shape [OF assms] by blast
  have parts: "integer_part (formatEther n) = i \<and> fraction_part (formatEther n) = f"
    using parts_no_point [OF d(1)] parts_with_point [OF d(1), of f] s by (cases "f = []") simp_all
  from l have lf: "length f \<le> 18" and j: "j = 18 - length f" by simp_all
  have acc: "accepted_amount (formatEther n)"
    using parts d lf by (simp add: accepted_amount_def)
  have "decimal_value (formatEther n)
          = of_int (int_of_digits i) + of_int (int_of_digits f * 10 ^ j) / 10 ^ 18"
    unfolding decimal_value_def using parts frac_value_scale [OF lf] j by simp
  also have "\<dots> = of_int n / 10 ^ 18"
    unfolding n by (simp add: field_simps)
  finally have dv: "decimal_value (formatEther n) = of_int n / 10 ^ 18" .
  have "int_of_digits (i @ padEnd 18 f) = n"
    unfolding n using lf j
    by (simp add: padEnd_def int_of_digits_append int_of_digits_zeros)
  with acc parts have "parseEther (formatEther n) = Some n"
    by (simp add: parseEther_def)
  with acc dv show ?thesis by simp
qed

text \<open>
  C6. Round trip: every amount string that the input accepts (digits with at most one
  decimal point) and that has at most 18 fractional digits is converted by \<open>parseEther\<close>
  to a base-unit integer which \<open>formatEther\<close> writes back as a string of the same
  decimal value; nothing is lost, since \<open>formatEther\<close> writes all 18 decimals that are
  not trailing zeros. The string written is again accepted and parses to the same
  integer.
\<close>

theorem parseEther_formatEther_roundtrip:
  assumes "accepted_amount s"
  shows "\<exists>n. parseEther s = Some n
           \<and> accepted_amount (formatEther n)
           \<and> decimal_value (formatEther n) = decimal_value s
           \<and> parseEther (formatEther n) = Some n"
proof -
  obtain n where n: "parseEther s = Some n" "0 \<le> n" "decimal_value s = of_int n / 10 ^ 18"
    using parseEther_value [OF assms] by blast
  with formatEther_value [OF n(2)] show ?thesis by simp
qed

theorem parseEther_formatEther_roundtrip_witness:
  "accepted_amount ''1.50''
   \<and> parseEther ''1.50'' = Some 1500000000000000000
   \<and> formatEther 1500000000000000000 = ''1.5''
   \<and> decimal_value ''1.5'' = decimal_value ''1.50''
   \<and> parseEther ''1.5'' = Some 1500000000000000000"
proof -
  have a: "accepted_amount ''1.50''" by code_simp
  have p: "parseEther ''1.50'' = Some 1500000000000000000" by code_simp
  have f: "formatEther 1500000000000000000 = ''1.5''" by code_simp
  from parseEther_formatEther_roundtrip [OF a] a p f show ?thesis by simp
qed

subsection \<open>The handlers of the two dashboards\<close>

lemma fetchData_no_write [simp]: "filter is_write (snd (fetchData c st)) = []"
  by (auto simp: fetchData_def Let_def split: option.splits sum.splits if_splits prod.splits)

lemma admin_fetchData_no_write [simp]: "filter is_write (snd (admin_fetchData c st)) = []"
  by (auto simp: admin_fetchData_def Let_def split: option.splits sum.splits if_splits prod.splits)

lemma stake_steps_chain:
  "stake_approve (c\<lparr>getChainId := g\<rparr>) a p = stake_approve c a p"
  "stake_submit (c\<lparr>getChainId := g\<rparr>) p = stake_submit c p"
  by (simp_all add: stake_approve_def stake_submit_def Let_def split: sum.splits)

lemma handleStake_writes_chain:
  "filter is_write (snd (handleStake parse (c\<lparr>getChainId := g\<rparr>) st))
     = filter is_write (snd (handleStake parse c st))"
proof -
  have "fst (handleStake_try parse (c\<lparr>getChainId := g\<rparr>) st) = fst (handleStake_try parse c st)
      \<and> filter is_write (snd (snd (handleStake_try parse (c\<lparr>getChainId := g\<rparr>) st)))
        = filter is_write (snd (snd (handleStake_try parse c st)))"
    by (auto simp: handleStake_try_def Let_def stake_steps_chain
          case_prod_beta split: sum.splits option.splits)
  then show ?thesis
    by (auto simp: handleStake_def split: sum.splits prod.splits)
qed

lemma handleUnstake_writes_chain:
  "filter is_write (snd (handleUnstake parse (c\<lparr>getChainId := g\<rparr>) st))
     = filter is_write (snd (handleUnstake parse c st))"
proof -
  have "fst (handleUnstake_try parse (c\<lparr>getChainId := g\<rparr>) st) = fst (handleUnstake_try parse c st)
      \<and> filter is_write (snd (snd (handleUnstake_try parse (c\<lparr>getChainId := g\<rparr>) st)))
        = filter is_write (snd (snd (handleUnstake_try parse c st)))"
    by (auto simp: handleUnstake_try_def Let_def
          case_prod_beta split: sum.splits option.splits)
  then show ?thesis
    by (auto simp: handleUnstake_def split: sum.splits prod.splits)
qed

lemma handleClaim_writes_chain:
  "filter is_write (snd (handleClaim (c\<lparr>getChainId := g\<rparr>) st))
     = filter is_write (snd (handleClaim c st))"
proof -
  have "fst (handleClaim_try (c\<lparr>getChainId := g\<rparr>) st) = fst (handleClaim_try c st)
      \<and> filter is_write (snd (snd (handleClaim_try (c\<lparr>getChainId := g\<rparr>) st)))
        = filter is_write (snd (snd (handleClaim_try c st)))"
    by (auto simp: handleClaim_try_def Let_def
          case_prod_beta split: sum.splits option.splits)
  then show ?thesis
    by (auto simp: handleClaim_def split: sum.splits prod.splits)
qed

lemma handleRestake_writes_chain:
  "filter is_write (snd (handleRestake (c\<lparr>getChainId := g\<rparr>) st))
     = filter is_write (snd (handleRestake c st))"
proof -
  have "fst (handleRestake_try (c\<lparr>getChainId := g\<rparr>) st) = fst (handleRestake_try c st)
      \<and> filter is_write (snd (snd (handleRestake_try (c\<lparr>getChainId := g\<rparr>) st)))
        = filter is_write (snd (snd (handleRestake_try c st)))"
    by (auto simp: handleRestake_try_def Let_def
          case_prod_beta split: sum.splits option.splits)
  then show ?thesis
    by (auto simp: handleRestake_def split: sum.splits prod.splits)
qed

lemma handleTransaction_chain:
  "handleTransaction (c\<lparr>getChainId := g\<rparr>) a ty st = handleTransaction c a ty st"
  by (simp add: handleTransaction_def Let_def split: sum.splits)

lemma handleSetRewards_chain:
  "handleSetRewards pf parse (c\<lparr>getChainId := g\<rparr>) st = handleSetRewards pf parse c st"
  by (simp add: handleSetRewards_def handleTransaction_chain Let_def split: prod.splits)

lemma handlePauseToggle_chain:
  "handlePauseToggle (c\<lparr>getChainId := g\<rparr>) st = handlePauseToggle c st"
  by (simp add: handlePauseToggle_def handleTransaction_chain Let_def)

lemma deposit_approve_chain:
  "deposit_approve (c\<lparr>getChainId := g\<rparr>) p st = deposit_approve c p st"
  by (simp add: deposit_approve_def Let_def split: sum.splits)

lemma deposit_submit_writes_chain:
  "filter is_write (snd (deposit_submit (c\<lparr>getChainId := g\<rparr>) p st))
     = filter is_write (snd (deposit_submit c p st))"
  by (auto simp: deposit_submit_def Let_def case_prod_beta split: sum.splits)

lemma handleDepositRewards_writes_chain:
  "filter is_write (snd (snd (handleDepositRewards pf parse (c\<lparr>getChainId := g\<rparr>) st)))
     = filter is_write (snd (snd (handleDepositRewards pf parse c st)))"
  by (auto simp: handleDepositRewards_def Let_def deposit_approve_chain case_prod_beta
        deposit_submit_writes_chain split: sum.splits)

text \<open>
  C10. For every stake input whose parsed amount exceeds \<open>parseEther("1000000")\<close>,
  \<open>handleStake\<close> throws, inside its \<open>try\<close>, the error "Amount exceeds maximum stake
  limit of 1,000,000 BRAIDS" and makes no call at all: neither the allowance read nor an
  approve or stake transaction. Its \<open>catch\<close> shows the message behind the prefix
  "Transaction failed! Contract Interaction with RON failed: ". \<open>parseEther\<close> is a
  parameter; the limit it returns is taken to be non-negative (viem returns \<open>10^24\<close>).
\<close>

theorem handleStake_exceeds_limit:
  assumes "stakeAmount st \<noteq> []"
      and "parse (stakeAmount st) = Inr parsedAmount"
      and "parse ''1000000'' = Inr limit"
      and "0 \<le> limit"
      and "limit < parsedAmount"
  shows "fst (handleStake_try parse c st)
           = Inl (Error ''Amount exceeds maximum stake limit of 1,000,000 BRAIDS'')
       \<and> snd (handleStake parse c st) = []
       \<and> fst (handleStake parse c st)
           = st\<lparr>error := Some (''Transaction failed! Contract Interaction with RON failed: ''
                                @ ''Amount exceeds maximum stake limit of 1,000,000 BRAIDS''),
                 transactionInProgress := False\<rparr>"
  using assms
  by (simp add: handleStake_def handleStake_try_def Let_def stakeErrorMessage_def Error_def)

lemma viem_parseEther_values: "viem_parseEther ''1000000'' = Inr 1000000000000000000000000"
  "viem_parseEther ''2000000'' = Inr 2000000000000000000000000"
  "viem_parseEther ''1'' = Inr 1000000000000000000"
  "viem_parseEther ''1.5'' = Inr 1500000000000000000"
  by code_simp+

theorem handleStake_exceeds_limit_witness:
  "stakeAmount (fresh_dashboard\<lparr>stakeAmount := ''2000000''\<rparr>) \<noteq> []
   \<and> viem_parseEther ''2000000'' = Inr 2000000000000000000000000
   \<and> viem_parseEther ''1000000'' = Inr 1000000000000000000000000
   \<and> fst (handleStake_try viem_parseEther healthy_client (fresh_dashboard\<lparr>stakeAmount := ''2000000''\<rparr>))
       = Inl (Error ''Amount exceeds maximum stake limit of 1,000,000 BRAIDS'')
   \<and> snd (handleStake viem_parseEther healthy_client (fresh_dashboard\<lparr>stakeAmount := ''2000000''\<rparr>)) = []
   \<and> error (fst (handleStake viem_parseEther healthy_client (fresh_dashboard\<lparr>stakeAmount := ''2000000''\<rparr>)))
       = Some ''Transaction failed! Contract Interaction with RON failed: Amount exceeds maximum stake limit of 1,000,000 BRAIDS''"
  using handleStake_exceeds_limit [of "fresh_dashboard\<lparr>stakeAmount := ''2000000''\<rparr>"
          viem_parseEther 2000000000000000000000000 1000000000000000000000000 healthy_client] viem_parseEther_values
  by simp

text \<open>
  C1 as stated fails: the handlers do not look at the chain id. On chain 1, with the
  amount 1 typed into the unstake input, \<open>handleUnstake\<close> submits the \<open>withdraw\<close>
  transaction and waits for it; only the refresh that follows finds the wrong network.
\<close>

theorem handlers_ignore_chain_counterexample:
  "getChainId wrong_network_client = Inr 1
   \<and> snd (handleUnstake viem_parseEther wrong_network_client (fresh_dashboard\<lparr>unstakeAmount := ''1''\<rparr>))
       = [WriteContract (Tx STAKING_CONTRACT_ADDRESS ''withdraw'' [Uint 1000000000000000000] (Some 300000)),
          WaitForTransactionReceipt ''0xhash-withdraw'', GetChainId]"
  using viem_parseEther_values
  by (simp add: handleUnstake_def handleUnstake_try_def fetchData_def Let_def
        wrong_network_client_def healthy_client_def fresh_dashboard_def)


lemma deposit_submit_starts:
  "\<exists>rest. snd (deposit_submit c p s) = WriteContract (depositRequest p) # rest"
  by (simp add: deposit_submit_def depositRequest_def Let_def case_prod_beta split: sum.splits)

lemma deposit_flow_after_allowance_check:
  assumes valid: "fst (validateDepositAmount parseFloat (depositAmount st) st)"
      and idle: "depositTxStatus st = TxIdle"
      and parsed: "parse (depositAmount st) = Inr parsedAmount"
      and bal: "readContract c BRAIDS_TOKEN_ADDRESS ''balanceOf'' [addr_arg (adm_address st)]
                  = Inr balance"
      and enough: "parsedAmount \<le> balance"
      and allow: "readContract c BRAIDS_TOKEN_ADDRESS ''allowance''
                    [addr_arg (adm_address st), Addr STAKING_CONTRACT_ADDRESS] = Inr currentAllowance"
      and exceeds: "currentAllowance < parsedAmount"
  shows "take 3 (snd (snd (handleDepositRewards parseFloat parse c st)))
           = [balanceRead st, allowanceRead st, WriteContract (approveRequest parsedAmount)]
       \<and> (WriteContract (depositRequest parsedAmount)
             \<in> set (snd (snd (handleDepositRewards parseFloat parse c st)))
           \<longleftrightarrow> (\<exists>h. writeContractAsync c (approveRequest parsedAmount) = Inr h
                    \<and> \<not> isl (waitForTransactionReceipt c h)))
       \<and> (\<forall>h. writeContractAsync c (approveRequest parsedAmount) = Inr h
                \<and> \<not> isl (waitForTransactionReceipt c h)
              \<longrightarrow> take 5 (snd (snd (handleDepositRewards parseFloat parse c st)))
                    = [balanceRead st, allowanceRead st,
                       WriteContract (approveRequest parsedAmount),
                       WaitForTransactionReceipt h,
                       WriteContract (depositRequest parsedAmount)])
       \<and> (\<not> (\<exists>h. writeContractAsync c (approveRequest parsedAmount) = Inr h
                    \<and> \<not> isl (waitForTransactionReceipt c h))
              \<longrightarrow> filter is_write (snd (snd (handleDepositRewards parseFloat parse c st)))
                    = [WriteContract (approveRequest parsedAmount)]
                  \<and> adm_error (fst (snd (handleDepositRewards parseFloat parse c st)))
                    = Some ''Approval transaction failed''
                  \<and> depositTxStatus (fst (snd (handleDepositRewards parseFloat parse c st)))
                    = TxError)"
proof -
  let ?st0 = "snd (validateDepositAmount parseFloat (depositAmount st) st)"
  let ?st1 = "?st0\<lparr>depositTxStatus := TxPreparing, adm_error := None\<rparr>"
  let ?A = "approveRequest parsedAmount" and ?D = "depositRequest parsedAmount"
  let ?R = "handleDepositRewards parseFloat parse c st"
  have ne: "?D \<noteq> ?A" by (simp add: approveRequest_def depositRequest_def)
  let ?rb = "ReadContract BRAIDS_TOKEN_ADDRESS ''balanceOf'' [addr_arg (adm_address st)]"
  let ?ra = "ReadContract BRAIDS_TOKEN_ADDRESS ''allowance''
               [addr_arg (adm_address st), Addr STAKING_CONTRACT_ADDRESS]"
  have unfold: "?R =
      (case deposit_approve c parsedAmount ?st1 of
         (Inl err, st2, t1) \<Rightarrow>
           (Inr (), st2\<lparr>adm_error := Some ''Approval transaction failed'', depositTxStatus := TxError\<rparr>,
            [?rb, ?ra] @ t1)
       | (Inr _, st2, t1) \<Rightarrow>
           (case deposit_submit c parsedAmount st2 of
              (st3, t2) \<Rightarrow> (Inr (), st3, [?rb, ?ra] @ t1 @ t2)))"
    using assms
    by (simp add: handleDepositRewards_def case_prod_beta Let_def)
  show ?thesis
  proof (cases "writeContractAsync c ?A")
    case (Inl e)
    then have "?R = (Inr (), ?st1\<lparr>adm_error := Some ''Approval transaction failed'',
                                   depositTxStatus := TxError\<rparr>,
                     [balanceRead st, allowanceRead st, WriteContract ?A])"
      unfolding unfold
      by (simp add: deposit_approve_def approveRequest_def Let_def balanceRead_def
            allowanceRead_def)
    with Inl ne show ?thesis
      by (simp add: balanceRead_def allowanceRead_def)
  next
    case (Inr h)
    show ?thesis
    proof (cases "waitForTransactionReceipt c h")
      case (Inl e)
      with Inr have "?R = (Inr (), ?st1\<lparr>depositTxHash := Some h,
                                     adm_error := Some ''Approval transaction failed'',
                                     depositTxStatus := TxError\<rparr>,
                     [balanceRead st, allowanceRead st, WriteContract ?A,
                      WaitForTransactionReceipt h])"
        unfolding unfold
        by (simp add: deposit_approve_def approveRequest_def Let_def balanceRead_def
              allowanceRead_def)
      with Inl Inr ne show ?thesis
        by (simp add: balanceRead_def allowanceRead_def)
    next
      case Inr2: (Inr u)
      let ?st2 = "?st1\<lparr>depositTxHash := Some h, depositTxStatus := TxPending\<rparr>"
      obtain rest where rest: "snd (deposit_submit c parsedAmount ?st2) = WriteContract ?D # rest"
        using deposit_submit_starts by blast
      from Inr Inr2 have "snd (snd ?R) =
            [balanceRead st, allowanceRead st, WriteContract ?A, WaitForTransactionReceipt h]
              @ snd (deposit_submit c parsedAmount ?st2)"
        unfolding unfold
        by (simp add: deposit_approve_def approveRequest_def Let_def case_prod_beta
              balanceRead_def allowanceRead_def)
      with rest have T: "snd (snd ?R) =
            [balanceRead st, allowanceRead st, WriteContract ?A, WaitForTransactionReceipt h,
             WriteContract ?D] @ rest"
        by simp
      from Inr Inr2 show ?thesis
        unfolding T by simp
    qed
  qed
qed


lemma deposit_stops_before_allowance_check:
  assumes "parse (depositAmount st) = Inr parsedAmount"
      and "\<not> (fst (validateDepositAmount parseFloat (depositAmount st) st)
              \<and> depositTxStatus st = TxIdle
              \<and> (\<exists>balance. readContract c BRAIDS_TOKEN_ADDRESS ''balanceOf''
                              [addr_arg (adm_address st)] = Inr balance
                            \<and> parsedAmount \<le> balance))"
  shows "filter is_write (snd (snd (handleDepositRewards parseFloat parse c st))) = []"
  using assms
  by (auto simp: handleDepositRewards_def case_prod_beta Let_def split: sum.splits)

text \<open>
  The order of the two transactions of a deposit. Let the parsed amount exceed the
  allowance that the token contract reports. Then in every run of
  \<open>handleDepositRewards\<close> the \<open>depositRewards\<close> transaction is submitted only if the
  approve transaction was submitted before it and the wait for the receipt of the
  approval returned, and the deposit then comes directly after that wait. When the
  deposit reaches the allowance check, the approve transaction is submitted right after
  the two reads, the deposit is submitted exactly when the approval was accepted and
  the wait for it returned a receipt, whatever the status in that receipt, and when the
  submission of the approval or the wait for it throws, the approval is the only
  transaction submitted, the error shown is "Approval transaction failed" and the
  status is \<open>error\<close>.
\<close>

lemma deposit_only_after_approval_returned:
  assumes parsed: "parse (depositAmount st) = Inr parsedAmount"
      and allow: "readContract c BRAIDS_TOKEN_ADDRESS ''allowance''
                    [addr_arg (adm_address st), Addr STAKING_CONTRACT_ADDRESS] = Inr currentAllowance"
      and exceeds: "currentAllowance < parsedAmount"
  shows "(WriteContract (depositRequest parsedAmount)
             \<in> set (snd (snd (handleDepositRewards parseFloat parse c st)))
          \<longrightarrow> (\<exists>h. writeContractAsync c (approveRequest parsedAmount) = Inr h
                   \<and> \<not> isl (waitForTransactionReceipt c h)
                   \<and> take 5 (snd (snd (handleDepositRewards parseFloat parse c st)))
                       = [balanceRead st, allowanceRead st,
                          WriteContract (approveRequest parsedAmount),
                          WaitForTransactionReceipt h,
                          WriteContract (depositRequest parsedAmount)]))
       \<and> (fst (validateDepositAmount parseFloat (depositAmount st) st)
            \<and> depositTxStatus st = TxIdle
            \<and> (\<exists>balance. readContract c BRAIDS_TOKEN_ADDRESS ''balanceOf''
                            [addr_arg (adm_address st)] = Inr balance
                          \<and> parsedAmount \<le> balance)
          \<longrightarrow> take 3 (snd (snd (handleDepositRewards parseFloat parse c st)))
                = [balanceRead st, allowanceRead st, WriteContract (approveRequest parsedAmount)]
              \<and> (WriteContract (depositRequest parsedAmount)
                    \<in> set (snd (snd (handleDepositRewards parseFloat parse c st)))
                  \<longleftrightarrow> (\<exists>h. writeContractAsync c (approveRequest parsedAmount) = Inr h
                           \<and> \<not> isl (waitForTransactionReceipt c h)))
              \<and> (\<not> (\<exists>h. writeContractAsync c (approveRequest parsedAmount) = Inr h
                           \<and> \<not> isl (waitForTransactionReceipt c h))
                  \<longrightarrow> filter is_write (snd (snd (handleDepositRewards parseFloat parse c st)))
                        = [WriteContract (approveRequest parsedAmount)]
                      \<and> adm_error (fst (snd (handleDepositRewards parseFloat parse c st)))
                        = Some ''Approval transaction failed''
                      \<and> depositTxStatus (fst (snd (handleDepositRewards parseFloat parse c st)))
                        = TxError))"
proof (cases "fst (validateDepositAmount parseFloat (depositAmount st) st)
            \<and> depositTxStatus st = TxIdle
            \<and> (\<exists>balance. readContract c BRAIDS_TOKEN_ADDRESS ''balanceOf''
                            [addr_arg (adm_address st)] = Inr balance
                          \<and> parsedAmount \<le> balance)")
  case True
  then obtain balance where
      "fst (validateDepositAmount parseFloat (depositAmount st) st)"
      "depositTxStatus st = TxIdle"
      "readContract c BRAIDS_TOKEN_ADDRESS ''balanceOf'' [addr_arg (adm_address st)] = Inr balance"
      "parsedAmount \<le> balance"
    by blast
  from deposit_flow_after_allowance_check
         [of parseFloat st parse parsedAmount c balance currentAllowance,
          OF this(1,2) parsed this(3,4) allow exceeds] True
  show ?thesis by blast
next
  case False
  from deposit_stops_before_allowance_check [of parse st parsedAmount parseFloat c, OF parsed False]
  have "filter is_write (snd (snd (handleDepositRewards parseFloat parse c st))) = []" .
  then have "WriteContract (depositRequest parsedAmount)
               \<notin> set (snd (snd (handleDepositRewards parseFloat parse c st)))"
    by (auto simp: filter_empty_conv)
  with False show ?thesis by blast
qed

text \<open>
  C3. When the parsed amount of a deposit exceeds the allowance, the approve transaction
  is to be submitted and confirmed before the deposit, and a failed approval is to stop
  the deposit. \<open>handleDepositRewards\<close> stops when the submission of the approval or the
  wait for its receipt throws, but it discards the receipt that the wait returns: for
  an approval that is mined and reverts (the receipt has status \<open>'reverted'\<close>) it goes
  on, submits \<open>depositRewards\<close> and reports success.
\<close>

theorem deposit_follows_reverted_approval:
  "writeContractAsync reverted_approval_client (approveRequest 1500000000000000000)
     = Inr ''0xhash-approve''
   \<and> waitForTransactionReceipt reverted_approval_client ''0xhash-approve'' = Inr ReceiptReverted
   \<and> take 5 (snd (snd (handleDepositRewards decimal_parseFloat viem_parseEther
                          reverted_approval_client depositor_admin)))
       = [balanceRead depositor_admin, allowanceRead depositor_admin,
          WriteContract (approveRequest 1500000000000000000),
          WaitForTransactionReceipt ''0xhash-approve'',
          WriteContract (depositRequest 1500000000000000000)]
   \<and> depositTxStatus (fst (snd (handleDepositRewards decimal_parseFloat viem_parseEther
                                  reverted_approval_client depositor_admin)))
       = TxSuccess
   \<and> adm_error (fst (snd (handleDepositRewards decimal_parseFloat viem_parseEther
                             reverted_approval_client depositor_admin)))
       = None"
  by code_simp

theorem deposit_follows_reverted_approval_witness:
  "WriteContract (depositRequest 1500000000000000000)
     \<in> set (snd (snd (handleDepositRewards decimal_parseFloat viem_parseEther
                         reverted_approval_client depositor_admin)))"
proof -
  let ?T = "snd (snd (handleDepositRewards decimal_parseFloat viem_parseEther
                        reverted_approval_client depositor_admin))"
  from deposit_follows_reverted_approval
  have "WriteContract (depositRequest 1500000000000000000) \<in> set (take 5 ?T)" by simp
  then show ?thesis by (rule in_set_takeD)
qed

text \<open>
  C1, as amended. Whenever the connected chain id differs from 2020, the refresh of
  either dashboard (\<open>fetchData\<close>) sets the error state to the wrong-network message,
  fetches no snapshot and makes no call besides reading the chain id. The staking
  dashboard shows that message in its banner. The admin dashboard shows it in its banner
  only to an account for which a role is recorded; to any other connected account it
  renders "Access Denied" and no message. The handlers \<open>handleStake\<close>, \<open>handleUnstake\<close>,
  \<open>handleClaim\<close>, \<open>handleRestake\<close> and the admin actions do not check the chain id: the
  transactions they submit are those they would submit on chain 2020.
\<close>

theorem wrong_network_blocks_refresh_only:
  assumes "getChainId c = Inr chainId" and "chainId \<noteq> 2020"
      and "address st = Some a" and "adm_address ad = Some a'"
  shows "fetchData c st
           = (st\<lparr>isLoading := False, error := Some ''Please connect to Ronin Mainnet''\<rparr>, [GetChainId])
       \<and> admin_fetchData c ad
           = (ad\<lparr>loading := False,
                 adm_error := Some ''Failed to load admin data: Please connect to Ronin mainnet''\<rparr>,
              [GetChainId])
       \<and> filter is_write (snd (handleStake parse c st))
           = filter is_write (snd (handleStake parse (c\<lparr>getChainId := Inr 2020\<rparr>) st))
       \<and> filter is_write (snd (handleUnstake parse c st))
           = filter is_write (snd (handleUnstake parse (c\<lparr>getChainId := Inr 2020\<rparr>) st))
       \<and> filter is_write (snd (handleClaim c st))
           = filter is_write (snd (handleClaim (c\<lparr>getChainId := Inr 2020\<rparr>) st))
       \<and> filter is_write (snd (handleRestake c st))
           = filter is_write (snd (handleRestake (c\<lparr>getChainId := Inr 2020\<rparr>) st))
       \<and> handleSetRewards parseFloat parse c ad
           = handleSetRewards parseFloat parse (c\<lparr>getChainId := Inr 2020\<rparr>) ad
       \<and> handlePauseToggle c ad = handlePauseToggle (c\<lparr>getChainId := Inr 2020\<rparr>) ad
       \<and> filter is_write (snd (snd (handleDepositRewards parseFloat parse c ad)))
           = filter is_write (snd (snd (handleDepositRewards parseFloat parse
                                          (c\<lparr>getChainId := Inr 2020\<rparr>) ad)))
       \<and> dashboard_banner (fst (fetchData c st)) = Some ''Please connect to Ronin Mainnet''
       \<and> admin_render (fst (admin_fetchData c ad))
           = (if isAdmin ad \<or> isMaintainer ad \<or> isDepositor ad
              then AdminPanel (Some ''Failed to load admin data: Please connect to Ronin mainnet'')
              else AccessDenied)"
proof -
  have f: "fetchData c st
           = (st\<lparr>isLoading := False, error := Some ''Please connect to Ronin Mainnet''\<rparr>, [GetChainId])"
    using assms by (simp add: fetchData_def Let_def Error_def)
  have g: "admin_fetchData c ad
           = (ad\<lparr>loading := False,
                 adm_error := Some ''Failed to load admin data: Please connect to Ronin mainnet''\<rparr>,
              [GetChainId])"
    using assms by (simp add: admin_fetchData_def admin_fetch_catch_def Let_def Error_def)
  have b: "dashboard_banner (fst (fetchData c st)) = Some ''Please connect to Ronin Mainnet''"
    unfolding f by (simp add: dashboard_banner_def banner_def)
  have r: "admin_render (fst (admin_fetchData c ad))
           = (if isAdmin ad \<or> isMaintainer ad \<or> isDepositor ad
              then AdminPanel (Some ''Failed to load admin data: Please connect to Ronin mainnet'')
              else AccessDenied)"
    unfolding g using assms(4) by (simp add: admin_render_def banner_def)
  have h: "filter is_write (snd (handleStake parse c st))
             = filter is_write (snd (handleStake parse (c\<lparr>getChainId := Inr 2020\<rparr>) st))
       \<and> filter is_write (snd (handleUnstake parse c st))
           = filter is_write (snd (handleUnstake parse (c\<lparr>getChainId := Inr 2020\<rparr>) st))
       \<and> filter is_write (snd (handleClaim c st))
           = filter is_write (snd (handleClaim (c\<lparr>getChainId := Inr 2020\<rparr>) st))
       \<and> filter is_write (snd (handleRestake c st))
           = filter is_write (snd (handleRestake (c\<lparr>getChainId := Inr 2020\<rparr>) st))
       \<and> handleSetRewards parseFloat parse c ad
           = handleSetRewards parseFloat parse (c\<lparr>getChainId := Inr 2020\<rparr>) ad
       \<and> handlePauseToggle c ad = handlePauseToggle (c\<lparr>getChainId := Inr 2020\<rparr>) ad
       \<and> filter is_write (snd (snd (handleDepositRewards parseFloat parse c ad)))
           = filter is_write (snd (snd (handleDepositRewards parseFloat parse
                                          (c\<lparr>getChainId := Inr 2020\<rparr>) ad)))"
    unfolding handleStake_writes_chain handleUnstake_writes_chain handleClaim_writes_chain
      handleRestake_writes_chain handleSetRewards_chain handlePauseToggle_chain
      handleDepositRewards_writes_chain
    by simp
  from f g h b r show ?thesis by blast
qed

theorem wrong_network_blocks_refresh_only_witness:
  "getChainId wrong_network_client = Inr 1
   \<and> fetchData wrong_network_client typing_dashboard
       = (typing_dashboard\<lparr>isLoading := False, error := Some ''Please connect to Ronin Mainnet''\<rparr>,
          [GetChainId])
   \<and> dashboard_banner (fst (fetchData wrong_network_client typing_dashboard))
       = Some ''Please connect to Ronin Mainnet''
   \<and> admin_fetchData wrong_network_client depositor_admin
       = (depositor_admin\<lparr>loading := False,
             adm_error := Some ''Failed to load admin data: Please connect to Ronin mainnet''\<rparr>,
          [GetChainId])
   \<and> admin_render (fst (admin_fetchData wrong_network_client depositor_admin))
       = AdminPanel (Some ''Failed to load admin data: Please connect to Ronin mainnet'')
   \<and> admin_render (fst (admin_fetchData wrong_network_client no_role_admin)) = AccessDenied
   \<and> filter is_write (snd (handleStake viem_parseEther wrong_network_client typing_dashboard))
       = [WriteContract (Tx BRAIDS_TOKEN_ADDRESS ''approve''
                           [Addr STAKING_CONTRACT_ADDRESS, Uint 1000000000000000000] (Some 100000)),
          WriteContract (Tx STAKING_CONTRACT_ADDRESS ''stake'' [Uint 1000000000000000000] (Some 100000))]
   \<and> filter is_write (snd (handleUnstake viem_parseEther wrong_network_client typing_dashboard))
       = [WriteContract (Tx STAKING_CONTRACT_ADDRESS ''withdraw'' [Uint 1000000000000000000] (Some 300000))]
   \<and> filter is_write (snd (snd (handleDepositRewards decimal_parseFloat viem_parseEther
                                  wrong_network_client depositor_admin)))
       = [WriteContract (approveRequest 1500000000000000000),
          WriteContract (depositRequest 1500000000000000000)]"
proof -
  have c: "getChainId wrong_network_client = Inr 1"
    by (simp add: wrong_network_client_def)
  have n: "(1::int) \<noteq> 2020" by simp
  have a: "address typing_dashboard = Some ''0x00000000000000000000000000000000000000aa''"
    "adm_address depositor_admin = Some ''0x00000000000000000000000000000000000000aa''"
    "adm_address no_role_admin = Some ''0x00000000000000000000000000000000000000aa''"
    by (simp_all add: typing_dashboard_def fresh_dashboard_def depositor_admin_def no_role_admin_def)
  have d: "isDepositor depositor_admin" "\<not> isAdmin no_role_admin" "\<not> isMaintainer no_role_admin"
    "\<not> isDepositor no_role_admin"
    by (simp_all add: depositor_admin_def no_role_admin_def)
  have k: "wrong_network_client\<lparr>getChainId := Inr 2020\<rparr> = healthy_client"
    by (simp add: wrong_network_client_def healthy_client_def)
  have s: "filter is_write (snd (handleStake viem_parseEther healthy_client typing_dashboard))
       = [WriteContract (Tx BRAIDS_TOKEN_ADDRESS ''approve''
                           [Addr STAKING_CONTRACT_ADDRESS, Uint 1000000000000000000] (Some 100000)),
          WriteContract (Tx STAKING_CONTRACT_ADDRESS ''stake'' [Uint 1000000000000000000] (Some 100000))]"
    by code_simp
  have u: "filter is_write (snd (handleUnstake viem_parseEther healthy_client typing_dashboard))
       = [WriteContract (Tx STAKING_CONTRACT_ADDRESS ''withdraw'' [Uint 1000000000000000000] (Some 300000))]"
    by code_simp
  have p: "filter is_write (snd (snd (handleDepositRewards decimal_parseFloat viem_parseEther
                                  healthy_client depositor_admin)))
       = [WriteContract (approveRequest 1500000000000000000),
          WriteContract (depositRequest 1500000000000000000)]"
    by code_simp
  note t1 = wrong_network_blocks_refresh_only [OF c n a(1) a(2), of viem_parseEther decimal_parseFloat]
  note t2 = wrong_network_blocks_refresh_only [OF c n a(1) a(3), of viem_parseEther decimal_parseFloat]
  from t1 have c2: "fetchData wrong_network_client typing_dashboard
       = (typing_dashboard\<lparr>isLoading := False, error := Some ''Please connect to Ronin Mainnet''\<rparr>,
          [GetChainId])"
    by blast
  from t1 have c3: "dashboard_banner (fst (fetchData wrong_network_client typing_dashboard))
       = Some ''Please connect to Ronin Mainnet''"
    by blast
  from t1 have c4: "admin_fetchData wrong_network_client depositor_admin
       = (depositor_admin\<lparr>loading := False,
             adm_error := Some ''Failed to load admin data: Please connect to Ronin mainnet''\<rparr>,
          [GetChainId])"
    by blast
  from t1 have "admin_render (fst (admin_fetchData wrong_network_client depositor_admin))
       = (if isAdmin depositor_admin \<or> isMaintainer depositor_admin \<or> isDepositor depositor_admin
          then AdminPanel (Some ''Failed to load admin data: Please connect to Ronin mainnet'')
          else AccessDenied)"
    by blast
  with d(1) have c5: "admin_render (fst (admin_fetchData wrong_network_client depositor_admin))
       = AdminPanel (Some ''Failed to load admin data: Please connect to Ronin mainnet'')"
    by simp
  from t2 have "admin_render (fst (admin_fetchData wrong_network_client no_role_admin))
       = (if isAdmin no_role_admin \<or> isMaintainer no_role_admin \<or> isDepositor no_role_admin
          then AdminPanel (Some ''Failed to load admin data: Please connect to Ronin mainnet'')
          else AccessDenied)"
    by blast
  with d(2-4) have c6: "admin_render (fst (admin_fetchData wrong_network_client no_role_admin))
       = AccessDenied"
    by simp
  from t1 have "filter is_write (snd (handleStake viem_parseEther wrong_network_client typing_dashboard))
       = filter is_write (snd (handleStake viem_parseEther healthy_client typing_dashboard))"
    unfolding k by blast
  with s have c7: "filter is_write (snd (handleStake viem_parseEther wrong_network_client typing_dashboard))
       = [WriteContract (Tx BRAIDS_TOKEN_ADDRESS ''approve''
                           [Addr STAKING_CONTRACT_ADDRESS, Uint 1000000000000000000] (Some 100000)),
          WriteContract (Tx STAKING_CONTRACT_ADDRESS ''stake'' [Uint 1000000000000000000] (Some 100000))]"
    by (simp only:)
  from t1 have "filter is_write (snd (handleUnstake viem_parseEther wrong_network_client typing_dashboard))
       = filter is_write (snd (handleUnstake viem_parseEther healthy_client typing_dashboard))"
    unfolding k by blast
  with u have c8: "filter is_write (snd (handleUnstake viem_parseEther wrong_network_client typing_dashboard))
       = [WriteContract (Tx STAKING_CONTRACT_ADDRESS ''withdraw'' [Uint 1000000000000000000] (Some 300000))]"
    by (simp only:)
  from t1 have "filter is_write (snd (snd (handleDepositRewards decimal_parseFloat viem_parseEther
                                  wrong_network_client depositor_admin)))
       = filter is_write (snd (snd (handleDepositRewards decimal_parseFloat viem_parseEther
                                  healthy_client depositor_admin)))"
    unfolding k by blast
  with p have c9: "filter is_write (snd (snd (handleDepositRewards decimal_parseFloat viem_parseEther
                                  wrong_network_client depositor_admin)))
       = [WriteContract (approveRequest 1500000000000000000),
          WriteContract (depositRequest 1500000000000000000)]"
    by (simp only:)
  from c c2 c3 c4 c5 c6 c7 c8 c9 show ?thesis by blast
qed

end
